theory Spec2Isabelle
  imports Main "HOL-Library.Sublist" "HOL-Library.Char_ord" "HOL-Library.List_Lexorder"
begin

section \<open>The scepserver command: data model\<close>

text \<open>
  The program is \<^verbatim>\<open>cmd/scepserver/scepserver.go\<close>: the \<^verbatim>\<open>main\<close> of a SCEP server and
  its \<^verbatim>\<open>ca\<close> subcommand. Everything the program does is an effect on the process
  environment, so the model passes an explicit \<open>world\<close> (the file store and the trace of
  what the process did so far) through every function, and a function that can call
  \<^verbatim>\<open>os.Exit\<close> returns a \<open>ctl\<close>: either the exit status or its ordinary result.
  Go's \<^verbatim>\<open>error\<close> results are sums with the error on the left.
\<close>

type_synonym path = string
type_synonym bytes = string

datatype error =
    ErrExist path
  | ErrNotExist path
  | ErrNotDir path
  | ErrIsDir path
  | ErrSyntax string
  | ErrRange string
  | ErrOther string

datatype 'a ctl = Exit int | Ret 'a

datatype node = Dir | File bytes

text \<open>The calls into the file system that the program makes, each with its arguments.\<close>

datatype ioop =
    OpMkdirAll path
  | OpOpenExcl path
  | OpWrite path bytes
  | OpRemove path
  | OpRemoveAll path
  | OpReadFile path
  | OpWriteFile path bytes
  | OpReadDir path

text \<open>The calls into libraries and into the other packages of the module.\<close>

datatype extcall =
    CallGenerateKey int
  | CallEncryptPEMBlock
  | CallPemEncode
  | CallSelfSign
  | CallNewFileDepot path
  | CallDepotCA
  | CallNewCSRVerifier string
  | CallNewService

datatype logval = LStr string | LBool bool | LErr error

datatype event =
    Stdout string
  | StdoutErr error
  | Stderr string
  | Log "(string \<times> logval) list"
  | Sys ioop
  | Ext extcall

record world =
  fs :: "(path \<times> node) list"
  trace :: "event list"

definition emit :: "event \<Rightarrow> world \<Rightarrow> world" where
  "emit e w = w\<lparr>trace := trace w @ [e]\<rparr>"

text \<open>
  The flags a \<^verbatim>\<open>flag.FlagSet\<close> has seen on the command line, by name, with the values
  it parsed: what \<^verbatim>\<open>flag.Visit\<close> walks over. A flag that is not in these maps
  keeps its default.
\<close>

record cmdline =
  sflag :: "string \<rightharpoonup> string"
  bflag :: "string \<rightharpoonup> bool"
  iflag :: "string \<rightharpoonup> int"

type_synonym environ = "string \<rightharpoonup> string"

type_synonym privkey = bytes
type_synonym cert = bytes

record pemblock =
  pem_Type :: string
  pem_Headers :: "(string \<times> string) list"
  pem_Bytes :: bytes

text \<open>The options \<^verbatim>\<open>scepdepot.NewCACert\<close> is called with.\<close>

record cacert =
  ca_years :: int
  ca_commonName :: string
  ca_organization :: string
  ca_organizationalUnit :: string
  ca_country :: string

datatype depot = FileDepot path

datatype verifier = ExecutableCSRVerifier string

datatype signer_option =
    WithAllowRenewalDays int
  | WithValidityDays int
  | WithCAPass string
  | WithSeverAttrs

text \<open>
  A \<^verbatim>\<open>CSRSigner\<close> as \<^verbatim>\<open>main\<close> builds it: the value keeps the constructor calls
  (\<^verbatim>\<open>scepdepot.NewSigner\<close>, \<^verbatim>\<open>scepserver.ChallengeMiddleware\<close>,
  \<^verbatim>\<open>csrverifier.Middleware\<close>) and their arguments, the wrapped signer last.
\<close>

datatype signer =
    NewSigner depot "signer_option list"
  | ChallengeMiddleware string signer
  | Middleware verifier signer

record service =
  svc_cert :: cert
  svc_key :: privkey
  svc_signer :: signer

text \<open>What \<^verbatim>\<open>main\<close> hands to the two goroutines at its end.\<close>

record launch =
  l_lambda :: bool
  l_httpAddr :: string
  l_svc :: service

text \<open>
  Everything outside the file: the operating system's refusals, Go's \<^verbatim>\<open>flag\<close> and
  crypto packages, and the packages of the module that are not in this file
  (\<^verbatim>\<open>depot\<close>, \<^verbatim>\<open>depot/file\<close>, \<^verbatim>\<open>csrverifier/executable\<close>, \<^verbatim>\<open>server\<close>). Each is a
  parameter of the model; a theorem holds for every platform unless it says otherwise.
  \<open>io_fault\<close> is the operating system refusing a call for a reason the file store does
  not show (permissions, a full or read-only disk), and \<open>undeletable\<close> says which entries
  a refused recursive removal could not remove; the parsers return the exit status of
  \<^verbatim>\<open>flag.ExitOnError\<close> on the left.
\<close>

record platform =
  io_fault :: "ioop \<Rightarrow> error option"
  undeletable :: "path \<Rightarrow> bool"
  parseMain :: "string list \<Rightarrow> int + cmdline"
  parseCA :: "string list \<Rightarrow> int + cmdline"
  rsa_GenerateKey :: "int \<Rightarrow> error + privkey"
  x509_MarshalPKCS1PrivateKey :: "privkey \<Rightarrow> bytes"
  x509_EncryptPEMBlock :: "string \<Rightarrow> bytes \<Rightarrow> bytes \<Rightarrow> error + pemblock"
  pem_Encode :: "pemblock \<Rightarrow> error + bytes"
  pem_EncodeToMemory :: "pemblock \<Rightarrow> bytes"
  SelfSign :: "cacert \<Rightarrow> privkey \<Rightarrow> error + bytes"
  NewFileDepot :: "(path \<times> node) list \<Rightarrow> path \<Rightarrow> (error + depot) \<times> (path \<times> node) list"
  depot_CA :: "(path \<times> node) list \<Rightarrow> depot \<Rightarrow> bytes \<Rightarrow> error + (cert list \<times> privkey)"
  executablecsrverifier_New :: "(path \<times> node) list \<Rightarrow> string \<Rightarrow> error + verifier"
  NewService :: "cert \<Rightarrow> privkey \<Rightarrow> signer \<Rightarrow> error option"

section \<open>Environment variables and flags\<close>

definition Getenv :: "environ \<Rightarrow> string \<Rightarrow> string" where
  "Getenv env key = (case env key of Some v \<Rightarrow> v | None \<Rightarrow> [])"

definition LookupEnv :: "environ \<Rightarrow> string \<Rightarrow> string \<times> bool" where
  "LookupEnv env key = (case env key of Some v \<Rightarrow> (v, True) | None \<Rightarrow> ([], False))"

text \<open>
  \<^verbatim>\<open>strconv.Atoi\<close> of Go's library, from its documentation: an optional sign, then one or
  more decimal digits, and the value must fit Go's 64-bit \<^verbatim>\<open>int\<close>.
\<close>

definition is_digit :: "char \<Rightarrow> bool" where
  "is_digit c = (CHR ''0'' \<le> c \<and> c \<le> CHR ''9'')"

definition digit_val :: "char \<Rightarrow> nat" where
  "digit_val c = of_char c - of_char CHR ''0''"

definition decimal :: "string \<Rightarrow> nat" where
  "decimal ds = foldl (\<lambda>n c. 10 * n + digit_val c) 0 ds"

definition Atoi :: "string \<Rightarrow> error + int" where
  "Atoi s =
     (let signed = (s \<noteq> [] \<and> (hd s = CHR ''+'' \<or> hd s = CHR ''-''));
          ds = (if signed then tl s else s)
      in if ds = [] \<or> \<not> list_all is_digit ds then Inl (ErrSyntax s)
         else let n = (if signed \<and> hd s = CHR ''-'' then - int (decimal ds) else int (decimal ds))
              in if n < - (2 ^ 63) \<or> 2 ^ 63 \<le> n then Inl (ErrRange s) else Inr n)"

definition envString :: "environ \<Rightarrow> string \<Rightarrow> string \<Rightarrow> string" where
  "envString env key def = (let e = Getenv env key in if e \<noteq> [] then e else def)"

definition envInt :: "environ \<Rightarrow> string \<Rightarrow> int \<Rightarrow> world \<Rightarrow> world \<times> int ctl" where
  "envInt env key def w =
     (let e = Getenv env key in
      if e \<noteq> [] then
        (case Atoi e of
           Inl err \<Rightarrow> (emit (StdoutErr err) w, Exit 1)
         | Inr convertedEnv \<Rightarrow> (w, Ret convertedEnv))
      else (w, Ret def))"

definition envBool :: "environ \<Rightarrow> string \<Rightarrow> bool" where
  "envBool env key = (let e = Getenv env key in if e = ''true'' then True else False)"

text \<open>
  The value behind the pointer that \<^verbatim>\<open>flag.String\<close>, \<^verbatim>\<open>flag.Bool\<close> or \<^verbatim>\<open>flag.Int\<close>
  returned, once the flag set has parsed the command line: the value given there, or
  the default the flag was declared with.
\<close>

definition flag_String :: "cmdline \<Rightarrow> string \<Rightarrow> string \<Rightarrow> string" where
  "flag_String cl name def = (case sflag cl name of Some v \<Rightarrow> v | None \<Rightarrow> def)"

definition flag_Bool :: "cmdline \<Rightarrow> string \<Rightarrow> bool \<Rightarrow> bool" where
  "flag_Bool cl name def = (case bflag cl name of Some v \<Rightarrow> v | None \<Rightarrow> def)"

definition flag_Int :: "cmdline \<Rightarrow> string \<Rightarrow> int \<Rightarrow> int" where
  "flag_Int cl name def = (case iflag cl name of Some v \<Rightarrow> v | None \<Rightarrow> def)"

text \<open>
  \<^verbatim>\<open>setByUser\<close> fills a map with the name of every flag \<^verbatim>\<open>flag.Visit\<close> reports (the
  flags set on the command line) and reads it at \<open>flagName\<close>; a name that is not in a
  Go map reads as \<^verbatim>\<open>false\<close>.
\<close>

definition userDefinedFlags :: "cmdline \<Rightarrow> string \<Rightarrow> bool" where
  "userDefinedFlags cl name =
     (name \<in> dom (sflag cl) \<or> name \<in> dom (bflag cl) \<or> name \<in> dom (iflag cl))"

definition setByUser :: "cmdline \<Rightarrow> environ \<Rightarrow> string \<Rightarrow> string \<Rightarrow> bool" where
  "setByUser cl env flagName envName =
     (let flagSet = userDefinedFlags cl flagName;
          envSet = snd (LookupEnv env envName)
      in flagSet \<or> envSet)"

section \<open>The file store\<close>

text \<open>
  The file store is a table from paths to nodes, read with \<open>map_of\<close>. Paths are compared
  as strings (the model does not normalise them as \<^verbatim>\<open>filepath.Clean\<close> does), and a
  directory holds the entries whose path is its own followed by \<^verbatim>\<open>/\<close>. Each call below
  is the library call of that name with the flags the program passes; it records itself
  in the trace, fails as the store dictates (an existing target, a missing source), and
  otherwise fails exactly when the platform injects a fault, in which case the store is
  left as it was; only \<^verbatim>\<open>os.RemoveAll\<close>, which removes what it can and returns the
  first error it met, leaves on a fault the entries of the tree that the platform calls
  undeletable. Permission bits are not in the store: a call refused for lack of
  permission is one of the platform's faults. File handles are the paths they were
  opened with; \<^verbatim>\<open>Close\<close> has no effect on the store and is left out. On the empty path \<^verbatim>\<open>os.MkdirAll\<close> fails and
  \<^verbatim>\<open>os.RemoveAll\<close> returns \<^verbatim>\<open>nil\<close> without removing anything, as Go's do.
\<close>

definition filepath_Join :: "path \<Rightarrow> string \<Rightarrow> path" where
  "filepath_Join dir name = (if dir = [] then name else dir @ ''/'' @ name)"

definition fs_put :: "path \<Rightarrow> node \<Rightarrow> (path \<times> node) list \<Rightarrow> (path \<times> node) list" where
  "fs_put p n st = (p, n) # filter (\<lambda>e. fst e \<noteq> p) st"

definition fs_del :: "path \<Rightarrow> (path \<times> node) list \<Rightarrow> (path \<times> node) list" where
  "fs_del p st = filter (\<lambda>e. fst e \<noteq> p) st"

definition within :: "path \<Rightarrow> path \<Rightarrow> bool" where
  "within dir p = (p = dir \<or> prefix (dir @ ''/'') p)"

definition fs_del_tree :: "path \<Rightarrow> (path \<times> node) list \<Rightarrow> (path \<times> node) list" where
  "fs_del_tree dir st = filter (\<lambda>e. \<not> within dir (fst e)) st"

definition fs_del_some ::
  "(path \<Rightarrow> bool) \<Rightarrow> path \<Rightarrow> (path \<times> node) list \<Rightarrow> (path \<times> node) list" where
  "fs_del_some keep dir st = filter (\<lambda>e. keep (fst e) \<or> \<not> within dir (fst e)) st"

definition children :: "path \<Rightarrow> (path \<times> node) list \<Rightarrow> (string \<times> bool) list" where
  "children dir st =
     sort_key fst
       (map (\<lambda>e. (drop (length dir + 1) (fst e), snd e = Dir))
         (filter (\<lambda>e. prefix (dir @ ''/'') (fst e) \<and> fst e \<noteq> dir @ ''/''
                    \<and> CHR ''/'' \<notin> set (drop (length dir + 1) (fst e))) st))"

definition os_MkdirAll :: "platform \<Rightarrow> path \<Rightarrow> world \<Rightarrow> world \<times> error option" where
  "os_MkdirAll P p w =
     (let w1 = emit (Sys (OpMkdirAll p)) w in
      if p = [] then (w1, Some (ErrNotExist p)) else
      case map_of (fs w1) p of
        Some Dir \<Rightarrow> (w1, None)
      | Some (File b) \<Rightarrow> (w1, Some (ErrNotDir p))
      | None \<Rightarrow>
          (case io_fault P (OpMkdirAll p) of
             Some e \<Rightarrow> (w1, Some e)
           | None \<Rightarrow> (w1\<lparr>fs := fs_put p Dir (fs w1)\<rparr>, None)))"

text \<open>\<^verbatim>\<open>os.OpenFile(name, os.O_WRONLY|os.O_CREATE|os.O_EXCL, 0400)\<close>.\<close>

definition os_OpenFile_excl :: "platform \<Rightarrow> path \<Rightarrow> world \<Rightarrow> world \<times> error option" where
  "os_OpenFile_excl P p w =
     (let w1 = emit (Sys (OpOpenExcl p)) w in
      case map_of (fs w1) p of
        Some n \<Rightarrow> (w1, Some (ErrExist p))
      | None \<Rightarrow>
          (case io_fault P (OpOpenExcl p) of
             Some e \<Rightarrow> (w1, Some e)
           | None \<Rightarrow> (w1\<lparr>fs := fs_put p (File []) (fs w1)\<rparr>, None)))"

text \<open>\<^verbatim>\<open>file.Write(data)\<close> on the handle opened at \<open>p\<close>.\<close>

definition file_Write :: "platform \<Rightarrow> path \<Rightarrow> bytes \<Rightarrow> world \<Rightarrow> world \<times> error option" where
  "file_Write P p data w =
     (let w1 = emit (Sys (OpWrite p data)) w in
      case map_of (fs w1) p of
        Some (File old) \<Rightarrow>
          (case io_fault P (OpWrite p data) of
             Some e \<Rightarrow> (w1, Some e)
           | None \<Rightarrow> (w1\<lparr>fs := fs_put p (File (old @ data)) (fs w1)\<rparr>, None))
      | Some Dir \<Rightarrow> (w1, Some (ErrIsDir p))
      | None \<Rightarrow> (w1, Some (ErrNotExist p)))"

definition os_Remove :: "platform \<Rightarrow> path \<Rightarrow> world \<Rightarrow> world \<times> error option" where
  "os_Remove P p w =
     (let w1 = emit (Sys (OpRemove p)) w in
      case map_of (fs w1) p of
        None \<Rightarrow> (w1, Some (ErrNotExist p))
      | Some n \<Rightarrow>
          (case io_fault P (OpRemove p) of
             Some e \<Rightarrow> (w1, Some e)
           | None \<Rightarrow> (w1\<lparr>fs := fs_del p (fs w1)\<rparr>, None)))"

definition os_RemoveAll :: "platform \<Rightarrow> path \<Rightarrow> world \<Rightarrow> world \<times> error option" where
  "os_RemoveAll P p w =
     (let w1 = emit (Sys (OpRemoveAll p)) w in
      if p = [] then (w1, None) else
      case io_fault P (OpRemoveAll p) of
        Some e \<Rightarrow> (w1\<lparr>fs := fs_del_some (undeletable P) p (fs w1)\<rparr>, Some e)
      | None \<Rightarrow> (w1\<lparr>fs := fs_del_tree p (fs w1)\<rparr>, None))"

definition ioutil_ReadFile :: "platform \<Rightarrow> path \<Rightarrow> world \<Rightarrow> world \<times> (error + bytes)" where
  "ioutil_ReadFile P p w =
     (let w1 = emit (Sys (OpReadFile p)) w in
      case map_of (fs w1) p of
        None \<Rightarrow> (w1, Inl (ErrNotExist p))
      | Some Dir \<Rightarrow> (w1, Inl (ErrIsDir p))
      | Some (File b) \<Rightarrow>
          (case io_fault P (OpReadFile p) of
             Some e \<Rightarrow> (w1, Inl e)
           | None \<Rightarrow> (w1, Inr b)))"

text \<open>
  \<^verbatim>\<open>ioutil.WriteFile(name, data, 0644)\<close> opens with \<^verbatim>\<open>O_WRONLY|O_CREATE|O_TRUNC\<close>: an
  existing file is truncated and rewritten.
\<close>

definition ioutil_WriteFile :: "platform \<Rightarrow> path \<Rightarrow> bytes \<Rightarrow> world \<Rightarrow> world \<times> error option" where
  "ioutil_WriteFile P p data w =
     (let w1 = emit (Sys (OpWriteFile p data)) w in
      case map_of (fs w1) p of
        Some Dir \<Rightarrow> (w1, Some (ErrIsDir p))
      | _ \<Rightarrow>
          (case io_fault P (OpWriteFile p data) of
             Some e \<Rightarrow> (w1, Some e)
           | None \<Rightarrow> (w1\<lparr>fs := fs_put p (File data) (fs w1)\<rparr>, None)))"

definition ioutil_ReadDir ::
  "platform \<Rightarrow> path \<Rightarrow> world \<Rightarrow> world \<times> (error + (string \<times> bool) list)" where
  "ioutil_ReadDir P p w =
     (let w1 = emit (Sys (OpReadDir p)) w in
      case map_of (fs w1) p of
        None \<Rightarrow> (w1, Inl (ErrNotExist p))
      | Some (File b) \<Rightarrow> (w1, Inl (ErrNotDir p))
      | Some Dir \<Rightarrow>
          (case io_fault P (OpReadDir p) of
             Some e \<Rightarrow> (w1, Inl e)
           | None \<Rightarrow> (w1, Inr (children p (fs w1)))))"

section \<open>The \<^verbatim>\<open>ca\<close> subcommand\<close>

definition rsaPrivateKeyPEMBlockType :: string where
  "rsaPrivateKeyPEMBlockType = ''RSA PRIVATE KEY''"

definition certificatePEMBlockType :: string where
  "certificatePEMBlockType = ''CERTIFICATE''"

definition copyFileToDepot ::
  "platform \<Rightarrow> path \<Rightarrow> path \<Rightarrow> string \<Rightarrow> world \<Rightarrow> world \<times> error option" where
  "copyFileToDepot P sourceFile depotPath filename w =
     (case os_MkdirAll P depotPath w of
        (w, Some err) \<Rightarrow> (w, Some err)
      | (w, None) \<Rightarrow>
          (case ioutil_ReadFile P sourceFile w of
             (w, Inl err) \<Rightarrow> (w, Some err)
           | (w, Inr input) \<Rightarrow>
               (case ioutil_WriteFile P (filepath_Join depotPath filename) input w of
                  (w, Some err) \<Rightarrow> (w, Some err)
                | (w, None) \<Rightarrow> (w, None))))"

text \<open>
  \<^verbatim>\<open>pem.Encode(file, block)\<close>: the block is serialised (which fails on a malformed
  header) and written to the open file.
\<close>

definition pem_Encode_to ::
  "platform \<Rightarrow> path \<Rightarrow> pemblock \<Rightarrow> world \<Rightarrow> world \<times> error option" where
  "pem_Encode_to P name b w =
     (let w = emit (Ext CallPemEncode) w in
      case pem_Encode P b of
        Inl err \<Rightarrow> (w, Some err)
      | Inr out \<Rightarrow> file_Write P name out w)"

definition createKey ::
  "platform \<Rightarrow> int \<Rightarrow> bytes \<Rightarrow> path \<Rightarrow> world \<Rightarrow> world \<times> (error + privkey)" where
  "createKey P bits password depot w =
     (case os_MkdirAll P depot w of
        (w, Some err) \<Rightarrow> (w, Inl err)
      | (w, None) \<Rightarrow>
          (let name = filepath_Join depot ''ca.key'' in
           case os_OpenFile_excl P name w of
             (w, Some err) \<Rightarrow> (w, Inl err)
           | (w, None) \<Rightarrow>
               (let w = emit (Ext (CallGenerateKey bits)) w in
                case rsa_GenerateKey P bits of
                  Inl err \<Rightarrow> (w, Inl err)
                | Inr key \<Rightarrow>
                    (let w = emit (Ext CallEncryptPEMBlock) w in
                     case x509_EncryptPEMBlock P rsaPrivateKeyPEMBlockType
                            (x509_MarshalPKCS1PrivateKey P key) password of
                       Inl err \<Rightarrow> (w, Inl err)
                     | Inr privPEMBlock \<Rightarrow>
                         (case pem_Encode_to P name privPEMBlock w of
                            (w, Some err) \<Rightarrow> (fst (os_Remove P name w), Inl err)
                          | (w, None) \<Rightarrow> (w, Inr key))))))"

definition storeFileInDepot ::
  "platform \<Rightarrow> path \<Rightarrow> string \<Rightarrow> bytes \<Rightarrow> world \<Rightarrow> world \<times> error option" where
  "storeFileInDepot P depot filename data w =
     (case os_MkdirAll P depot w of
        (w, Some err) \<Rightarrow> (w, Some err)
      | (w, None) \<Rightarrow>
          (let name = filepath_Join depot filename in
           case os_OpenFile_excl P name w of
             (w, Some err) \<Rightarrow> (w, Some err)
           | (w, None) \<Rightarrow>
               (case file_Write P name data w of
                  (w, Some err) \<Rightarrow> (fst (os_Remove P name w), Some err)
                | (w, None) \<Rightarrow> (w, None))))"

definition pemCert :: "platform \<Rightarrow> bytes \<Rightarrow> bytes" where
  "pemCert P derBytes =
     (let pemBlock = \<lparr>pem_Type = certificatePEMBlockType, pem_Headers = [], pem_Bytes = derBytes\<rparr>;
          out = pem_EncodeToMemory P pemBlock
      in out)"

definition createCertificateAuthority ::
  "platform \<Rightarrow> privkey \<Rightarrow> int \<Rightarrow> string \<Rightarrow> string \<Rightarrow> string \<Rightarrow> string \<Rightarrow> path
     \<Rightarrow> world \<Rightarrow> world \<times> error option" where
  "createCertificateAuthority P key years commonName organization organizationalUnit country depot w =
     (let cert = \<lparr>ca_years = years, ca_commonName = commonName, ca_organization = organization,
                  ca_organizationalUnit = organizationalUnit, ca_country = country\<rparr>;
          w = emit (Ext CallSelfSign) w
      in case SelfSign P cert key of
           Inl err \<Rightarrow> (w, Some err)
         | Inr crtBytes \<Rightarrow> storeFileInDepot P depot ''ca.pem'' (pemCert P crtBytes) w)"

text \<open>
  The three branches of \<^verbatim>\<open>caMain\<close> (lines 265-297), each from its banner to the status
  it makes \<^verbatim>\<open>caMain\<close> return.
\<close>

definition inlineBanner :: string where
  "inlineBanner = ''Storing ENV-provided cert and key to the depot''"

definition pathCopyBanner :: string where
  "pathCopyBanner = ''Coping key and cert into CA depot''"

definition generateBanner :: string where
  "generateBanner = ''Generating new key and cert''"

definition caMain_inline ::
  "platform \<Rightarrow> path \<Rightarrow> string \<Rightarrow> string \<Rightarrow> world \<Rightarrow> world \<times> int" where
  "caMain_inline P flDepotPath flInlineCert flInlineKey w =
     (let w = emit (Stdout inlineBanner) w in
      case storeFileInDepot P flDepotPath ''ca.pem'' flInlineCert w of
        (w, Some err) \<Rightarrow> (emit (StdoutErr err) w, 1)
      | (w, None) \<Rightarrow>
          (case storeFileInDepot P flDepotPath ''ca.key'' flInlineKey w of
             (w, Some err) \<Rightarrow> (emit (StdoutErr err) w, 1)
           | (w, None) \<Rightarrow> (w, 0)))"

definition caMain_pathCopy ::
  "platform \<Rightarrow> path \<Rightarrow> path \<Rightarrow> path \<Rightarrow> world \<Rightarrow> world \<times> int" where
  "caMain_pathCopy P flDepotPath flPathCert flPathKey w =
     (let w = emit (Stdout pathCopyBanner) w in
      case copyFileToDepot P flPathCert flDepotPath ''ca.pem'' w of
        (w, Some err) \<Rightarrow> (emit (StdoutErr err) w, 1)
      | (w, None) \<Rightarrow>
          (case copyFileToDepot P flPathKey flDepotPath ''ca.key'' w of
             (w, Some err) \<Rightarrow> (emit (StdoutErr err) w, 1)
           | (w, None) \<Rightarrow> (w, 0)))"

definition caMain_generate ::
  "platform \<Rightarrow> path \<Rightarrow> int \<Rightarrow> string \<Rightarrow> int \<Rightarrow> string \<Rightarrow> string \<Rightarrow> string \<Rightarrow> string
     \<Rightarrow> world \<Rightarrow> world \<times> int" where
  "caMain_generate P flDepotPath flKeySize flPassword flYears flCommonName flOrg flOrgUnit flCountry w =
     (let w = emit (Stdout generateBanner) w in
      case createKey P flKeySize flPassword flDepotPath w of
        (w, Inl err) \<Rightarrow> (emit (StdoutErr err) w, 1)
      | (w, Inr key) \<Rightarrow>
          (case createCertificateAuthority P key flYears flCommonName flOrg flOrgUnit flCountry
                  flDepotPath w of
             (w, Some err) \<Rightarrow> (emit (StdoutErr err) w, 1)
           | (w, None) \<Rightarrow> (w, 0)))"

text \<open>
  The flags of \<^verbatim>\<open>caMain\<close> (lines 243-255), each with its environment default. The two
  integer flags take their default from \<^verbatim>\<open>envInt\<close>, which can exit, so the default is
  an argument here.
\<close>

definition ca_flDepotPath :: "cmdline \<Rightarrow> environ \<Rightarrow> string" where
  "ca_flDepotPath cl env = flag_String cl ''depot'' (envString env ''SCEP_FILE_DEPOT'' ''depot'')"

definition ca_flInit :: "cmdline \<Rightarrow> environ \<Rightarrow> bool" where
  "ca_flInit cl env = flag_Bool cl ''init-ca'' (envBool env ''SCEP_INIT_CA'')"

definition ca_flYears :: "cmdline \<Rightarrow> int \<Rightarrow> int" where
  "ca_flYears cl defYears = flag_Int cl ''years'' defYears"

definition ca_flKeySize :: "cmdline \<Rightarrow> int \<Rightarrow> int" where
  "ca_flKeySize cl defKeySize = flag_Int cl ''keySize'' defKeySize"

definition ca_flCommonName :: "cmdline \<Rightarrow> environ \<Rightarrow> string" where
  "ca_flCommonName cl env =
     flag_String cl ''common_name'' (envString env ''SCEP_CA_COMMON_NAME'' ''MICROMDM SCEP CA'')"

definition ca_flOrg :: "cmdline \<Rightarrow> environ \<Rightarrow> string" where
  "ca_flOrg cl env = flag_String cl ''organization'' (envString env ''SCEP_CA_ORG'' ''scep-ca'')"

definition ca_flOrgUnit :: "cmdline \<Rightarrow> environ \<Rightarrow> string" where
  "ca_flOrgUnit cl env =
     flag_String cl ''organizational_unit'' (envString env ''SCEP_CA_OU'' ''SCEP CA'')"

definition ca_flPassword :: "cmdline \<Rightarrow> environ \<Rightarrow> string" where
  "ca_flPassword cl env = flag_String cl ''key-password'' (envString env ''SCEP_CA_PASSWORD'' [])"

definition ca_flCountry :: "cmdline \<Rightarrow> environ \<Rightarrow> string" where
  "ca_flCountry cl env = flag_String cl ''country'' (envString env ''SCEP_CA_COUNTRY'' ''US'')"

definition ca_flInlineCert :: "cmdline \<Rightarrow> environ \<Rightarrow> string" where
  "ca_flInlineCert cl env = flag_String cl ''inline-cert'' (envString env ''SCEP_INLINE_CERT'' [])"

definition ca_flInlineKey :: "cmdline \<Rightarrow> environ \<Rightarrow> string" where
  "ca_flInlineKey cl env = flag_String cl ''inline-key'' (envString env ''SCEP_INLINE_KEY'' [])"

definition ca_flPathCert :: "cmdline \<Rightarrow> environ \<Rightarrow> string" where
  "ca_flPathCert cl env = flag_String cl ''path-cert'' (envString env ''SCEP_PATH_CERT'' [])"

definition ca_flPathKey :: "cmdline \<Rightarrow> environ \<Rightarrow> string" where
  "ca_flPathKey cl env = flag_String cl ''path-key'' (envString env ''SCEP_PATH_KEY'' [])"

text \<open>
  \<^verbatim>\<open>caMain(cmd, args)\<close>. Declaring the flags reads the environment for their defaults
  (\<^verbatim>\<open>envInt\<close> exits on a value that is not a number), then \<^verbatim>\<open>cmd.Parse(args)\<close>
  runs, then the first branch whose inputs are both non-empty.
\<close>

definition caMain :: "platform \<Rightarrow> environ \<Rightarrow> string list \<Rightarrow> world \<Rightarrow> world \<times> int ctl" where
  "caMain P env args w =
     (case envInt env ''SCEP_CA_YEARS'' 10 w of
        (w, Exit c) \<Rightarrow> (w, Exit c)
      | (w, Ret defYears) \<Rightarrow>
     (case envInt env ''SCEP_CA_KEYSIZE'' 4096 w of
        (w, Exit c) \<Rightarrow> (w, Exit c)
      | (w, Ret defKeySize) \<Rightarrow>
     (case parseCA P args of
        Inl c \<Rightarrow> (w, Exit c)
      | Inr cl \<Rightarrow>
          (let w = emit (Stdout (if ca_flInit cl env then ''Initializing new CA via main CLI''
                                 else ''Initializing new CA'')) w;
               (w, status) =
                 (if ca_flInlineCert cl env \<noteq> [] \<and> ca_flInlineKey cl env \<noteq> [] then
                    caMain_inline P (ca_flDepotPath cl env) (ca_flInlineCert cl env)
                      (ca_flInlineKey cl env) w
                  else if ca_flPathCert cl env \<noteq> [] \<and> ca_flPathKey cl env \<noteq> [] then
                    caMain_pathCopy P (ca_flDepotPath cl env) (ca_flPathCert cl env)
                      (ca_flPathKey cl env) w
                  else
                    caMain_generate P (ca_flDepotPath cl env) (ca_flKeySize cl defKeySize)
                      (ca_flPassword cl env) (ca_flYears cl defYears) (ca_flCommonName cl env)
                      (ca_flOrg cl env) (ca_flOrgUnit cl env) (ca_flCountry cl env) w)
           in (w, Ret status)))))"

text \<open>
  The strategy a run of \<^verbatim>\<open>caMain\<close> took can be read off what it printed: each branch
  starts with its own banner.
\<close>

datatype strategy = Inline | PathCopy | Generate

fun started :: "event \<Rightarrow> strategy list" where
  "started (Stdout m) =
     (if m = inlineBanner then [Inline]
      else if m = pathCopyBanner then [PathCopy]
      else if m = generateBanner then [Generate]
      else [])"
| "started e = []"

definition strategies_started :: "event list \<Rightarrow> strategy list" where
  "strategies_started tr = concat (map started tr)"

text \<open>
  The selection as the specification words it (section 4.3): inline material when both
  inline inputs are present, else path copy when both paths are present, else generate.
\<close>

definition spec_strategy :: "string \<Rightarrow> string \<Rightarrow> string \<Rightarrow> string \<Rightarrow> strategy" where
  "spec_strategy inlineCert inlineKey pathCert pathKey =
     (if inlineCert \<noteq> [] \<and> inlineKey \<noteq> [] then Inline
      else if pathCert \<noteq> [] \<and> pathKey \<noteq> [] then PathCopy
      else Generate)"

section \<open>The server: \<^verbatim>\<open>main\<close>\<close>

text \<open>
  \<^verbatim>\<open>version\<close> is a package variable; its value in the source is the one below (a build
  may overwrite it at link time).
\<close>

definition version :: string where
  "version = ''unknown''"

text \<open>The flags of \<^verbatim>\<open>main\<close> (lines 49-63), each with its environment default.\<close>

definition flVersion :: "cmdline \<Rightarrow> environ \<Rightarrow> bool" where
  "flVersion cl env = flag_Bool cl ''version'' (envBool env ''SCEP_VERSION'')"

definition flHTTPAddr :: "cmdline \<Rightarrow> environ \<Rightarrow> string" where
  "flHTTPAddr cl env = flag_String cl ''http-addr'' (envString env ''SCEP_HTTP_ADDR'' [])"

definition flPort :: "cmdline \<Rightarrow> environ \<Rightarrow> string" where
  "flPort cl env = flag_String cl ''port'' (envString env ''SCEP_HTTP_LISTEN_PORT'' ''8080'')"

definition flDepotPath :: "cmdline \<Rightarrow> environ \<Rightarrow> string" where
  "flDepotPath cl env = flag_String cl ''depot'' (envString env ''SCEP_FILE_DEPOT'' ''depot'')"

definition flCAPass :: "cmdline \<Rightarrow> environ \<Rightarrow> string" where
  "flCAPass cl env = flag_String cl ''capass'' (envString env ''SCEP_CA_PASS'' [])"

definition flClDuration :: "cmdline \<Rightarrow> environ \<Rightarrow> string" where
  "flClDuration cl env = flag_String cl ''crtvalid'' (envString env ''SCEP_CERT_VALID'' ''365'')"

definition flClAllowRenewal :: "cmdline \<Rightarrow> environ \<Rightarrow> string" where
  "flClAllowRenewal cl env = flag_String cl ''allowrenew'' (envString env ''SCEP_CERT_RENEW'' ''14'')"

definition flChallengePassword :: "cmdline \<Rightarrow> environ \<Rightarrow> string" where
  "flChallengePassword cl env =
     flag_String cl ''challenge'' (envString env ''SCEP_CHALLENGE_PASSWORD'' [])"

definition flCSRVerifierExec :: "cmdline \<Rightarrow> environ \<Rightarrow> string" where
  "flCSRVerifierExec cl env =
     flag_String cl ''csrverifierexec'' (envString env ''SCEP_CSR_VERIFIER_EXEC'' [])"

definition flDebug :: "cmdline \<Rightarrow> environ \<Rightarrow> bool" where
  "flDebug cl env = flag_Bool cl ''debug'' (envBool env ''SCEP_LOG_DEBUG'')"

definition flLogJSON :: "cmdline \<Rightarrow> environ \<Rightarrow> bool" where
  "flLogJSON cl env = flag_Bool cl ''log-json'' (envBool env ''SCEP_LOG_JSON'')"

definition flInitCA :: "cmdline \<Rightarrow> environ \<Rightarrow> bool" where
  "flInitCA cl env = flag_Bool cl ''init-ca'' (envBool env ''SCEP_INIT_CA'')"

definition flSignServerAttrs :: "cmdline \<Rightarrow> environ \<Rightarrow> bool" where
  "flSignServerAttrs cl env = flag_Bool cl ''sign-server-attrs'' (envBool env ''SCEP_SIGN_SERVER_ATTRS'')"

definition flLambda :: "cmdline \<Rightarrow> environ \<Rightarrow> bool" where
  "flLambda cl env = flag_Bool cl ''lambda'' (envBool env ''SCEP_LAMBDA'')"

definition flDeleteCA :: "cmdline \<Rightarrow> environ \<Rightarrow> bool" where
  "flDeleteCA cl env = flag_Bool cl ''delete-ca'' (envBool env ''SCEP_DELETE_CA'')"

text \<open>Lines 81-91: \<^verbatim>\<open>-http-addr\<close> and \<^verbatim>\<open>-port\<close> conflict.\<close>

definition main_httpAddr :: "cmdline \<Rightarrow> environ \<Rightarrow> world \<Rightarrow> world \<times> string ctl" where
  "main_httpAddr cl env w =
     (let httpAddrSet = setByUser cl env ''http-addr'' ''SCEP_HTTP_ADDR'';
          portSet = setByUser cl env ''port'' ''SCEP_HTTP_LISTEN_PORT''
      in if httpAddrSet \<and> portSet then
           (emit (Stderr ''cannot set both -http-addr and -port'') w, Exit 1)
         else if httpAddrSet then (w, Ret (flHTTPAddr cl env))
         else (w, Ret ('':'' @ flPort cl env)))"

text \<open>
  Lines 93-107 build the logger; every line the program logs goes through
  \<^verbatim>\<open>level.Info\<close>, which both settings of \<^verbatim>\<open>-debug\<close> let through, so a \<open>Log\<close> event keeps
  the keys and values of the call and leaves out the rendering (JSON or logfmt) and the
  time stamp and caller that the logger adds.

  Lines 113-115: \<^verbatim>\<open>flag.VisitAll\<close> logs every flag, in the order of their names.
\<close>

definition main_logFlags :: "cmdline \<Rightarrow> environ \<Rightarrow> world \<Rightarrow> world" where
  "main_logFlags cl env w =
     foldl (\<lambda>w kv. emit (Log [(''flag'', LStr (fst kv)), (''value'', snd kv)]) w) w
       [(''allowrenew'', LStr (flClAllowRenewal cl env)),
        (''capass'', LStr (flCAPass cl env)),
        (''challenge'', LStr (flChallengePassword cl env)),
        (''crtvalid'', LStr (flClDuration cl env)),
        (''csrverifierexec'', LStr (flCSRVerifierExec cl env)),
        (''debug'', LBool (flDebug cl env)),
        (''delete-ca'', LBool (flDeleteCA cl env)),
        (''depot'', LStr (flDepotPath cl env)),
        (''http-addr'', LStr (flHTTPAddr cl env)),
        (''init-ca'', LBool (flInitCA cl env)),
        (''lambda'', LBool (flLambda cl env)),
        (''log-json'', LBool (flLogJSON cl env)),
        (''port'', LStr (flPort cl env)),
        (''sign-server-attrs'', LBool (flSignServerAttrs cl env)),
        (''version'', LBool (flVersion cl env))]"

text \<open>Lines 117-124: the depot directory is listed into the log.\<close>

definition main_listFiles :: "platform \<Rightarrow> cmdline \<Rightarrow> environ \<Rightarrow> world \<Rightarrow> world" where
  "main_listFiles P cl env w =
     (case ioutil_ReadDir P (flDepotPath cl env) w of
        (w, Inl err) \<Rightarrow> emit (Log [(''err'', LErr err), (''msg'', LStr ''trying to list files'')]) w
      | (w, Inr files) \<Rightarrow>
          foldl (\<lambda>w f. emit (Log [(''file'', LStr (fst f)), (''isDir'', LBool (snd f))]) w) w files)"

text \<open>Lines 127-132: \<^verbatim>\<open>-delete-ca\<close>.\<close>

definition main_deleteCA :: "platform \<Rightarrow> cmdline \<Rightarrow> environ \<Rightarrow> world \<Rightarrow> world" where
  "main_deleteCA P cl env w =
     (if flDeleteCA cl env then
        (case os_RemoveAll P (flDepotPath cl env) w of
           (w, Some e) \<Rightarrow>
             emit (Log [(''err'', LErr e), (''msg'', LStr ''attempted to remove index.txt'')]) w
         | (w, None) \<Rightarrow> w)
      else w)"

text \<open>
  Lines 136-152: the depot is opened; when that fails and \<^verbatim>\<open>-init-ca\<close> is set,
  \<^verbatim>\<open>caMain\<close> runs on the arguments of \<^verbatim>\<open>main\<close> (its status is dropped) and the depot is
  opened again.
\<close>

definition file_NewFileDepot :: "platform \<Rightarrow> path \<Rightarrow> world \<Rightarrow> world \<times> (error + depot)" where
  "file_NewFileDepot P p w =
     (let w = emit (Ext (CallNewFileDepot p)) w;
          (r, st) = NewFileDepot P (fs w) p
      in (w\<lparr>fs := st\<rparr>, r))"

definition main_depot ::
  "platform \<Rightarrow> environ \<Rightarrow> string list \<Rightarrow> cmdline \<Rightarrow> world \<Rightarrow> world \<times> depot ctl" where
  "main_depot P env args cl w =
     (case file_NewFileDepot P (flDepotPath cl env) w of
        (w, Inr depot) \<Rightarrow> (w, Ret depot)
      | (w, Inl err) \<Rightarrow>
          if flInitCA cl env then
            (let w = emit (Log [(''msg'', LStr ''Initializing new CA'')]) w in
             case caMain P env args w of
               (w, Exit c) \<Rightarrow> (w, Exit c)
             | (w, Ret status) \<Rightarrow>
                 (case file_NewFileDepot P (flDepotPath cl env) w of
                    (w, Inr depot) \<Rightarrow> (w, Ret depot)
                  | (w, Inl err) \<Rightarrow> (emit (Log [(''err'', LErr err)]) w, Exit 1)))
          else (emit (Log [(''err'', LErr err)]) w, Exit 1))"

text \<open>Lines 163-171: the external CSR verifier, \<open>None\<close> for Go's \<^verbatim>\<open>nil\<close>.\<close>

definition main_csrVerifier ::
  "platform \<Rightarrow> cmdline \<Rightarrow> environ \<Rightarrow> world \<Rightarrow> world \<times> verifier option ctl" where
  "main_csrVerifier P cl env w =
     (if flCSRVerifierExec cl env \<noteq> [] then
        (let w = emit (Ext (CallNewCSRVerifier (flCSRVerifierExec cl env))) w in
         case executablecsrverifier_New P (fs w) (flCSRVerifierExec cl env) of
           Inl err \<Rightarrow>
             (emit (Log [(''err'', LErr err), (''msg'', LStr ''Could not instantiate CSR verifier'')]) w,
              Exit 1)
         | Inr executableCSRVerifier \<Rightarrow> (w, Ret (Some executableCSRVerifier)))
      else (w, Ret None))"

text \<open>Lines 192-198: the signer and its two optional wrappers.\<close>

definition main_signer ::
  "depot \<Rightarrow> signer_option list \<Rightarrow> string \<Rightarrow> verifier option \<Rightarrow> signer" where
  "main_signer depot signerOpts challengePassword csrVerifier =
     (let signer = NewSigner depot signerOpts;
          signer = (if challengePassword \<noteq> [] then ChallengeMiddleware challengePassword signer
                    else signer);
          signer = (case csrVerifier of Some v \<Rightarrow> Middleware v signer | None \<Rightarrow> signer)
      in signer)"

text \<open>
  Lines 173-205: the service. \<^verbatim>\<open>NewLoggingService\<close> and, in lines 207-213, the endpoint
  logging and the HTTP handler wrap the service without changing the signer; the model
  keeps the service they wrap.
\<close>

definition main_svc ::
  "platform \<Rightarrow> cmdline \<Rightarrow> environ \<Rightarrow> depot \<Rightarrow> int \<Rightarrow> int \<Rightarrow> verifier option \<Rightarrow> world
     \<Rightarrow> world \<times> service ctl" where
  "main_svc P cl env depot allowRenewal clientValidity csrVerifier w =
     (let w = emit (Ext CallDepotCA) w in
      case depot_CA P (fs w) depot (flCAPass cl env) of
        Inl err \<Rightarrow> (emit (Log [(''err'', LErr err)]) w, Exit 1)
      | Inr (crts, key) \<Rightarrow>
          if length crts < 1 then
            (emit (Log [(''err'', LStr ''missing CA certificate'')]) w, Exit 1)
          else
            (let signerOpts = [WithAllowRenewalDays allowRenewal, WithValidityDays clientValidity,
                               WithCAPass (flCAPass cl env)];
                 signerOpts = (if flSignServerAttrs cl env then signerOpts @ [WithSeverAttrs]
                               else signerOpts);
                 signer = main_signer depot signerOpts (flChallengePassword cl env) csrVerifier;
                 w = emit (Ext CallNewService) w
             in case NewService P (crts ! 0) key signer of
                  Some err \<Rightarrow> (emit (Log [(''err'', LErr err)]) w, Exit 1)
                | None \<Rightarrow> (w, Ret \<lparr>svc_cert = crts ! 0, svc_key = key, svc_signer = signer\<rparr>)))"

text \<open>
  Lines 136-215 of \<^verbatim>\<open>main\<close>: everything from the opening of the depot to the point
  where the source starts its two goroutines (line 216). The result \<open>Ret l\<close> says that
  start-up got that far, with the address, the mode and the service the goroutines
  are given; what they do with them is the subject of the section on the launch.
\<close>

definition main_serve ::
  "platform \<Rightarrow> environ \<Rightarrow> string list \<Rightarrow> cmdline \<Rightarrow> string \<Rightarrow> world \<Rightarrow> world \<times> launch ctl" where
  "main_serve P env args cl httpAddr w =
     (case main_depot P env args cl w of
        (w, Exit c) \<Rightarrow> (w, Exit c)
      | (w, Ret depot) \<Rightarrow>
     (case Atoi (flClAllowRenewal cl env) of
        Inl err \<Rightarrow>
          (emit (Log [(''err'', LErr err), (''msg'', LStr ''No valid number for allowed renewal time'')]) w,
           Exit 1)
      | Inr allowRenewal \<Rightarrow>
     (case Atoi (flClDuration cl env) of
        Inl err \<Rightarrow>
          (emit (Log [(''err'', LErr err), (''msg'', LStr ''No valid number for client cert validity'')]) w,
           Exit 1)
      | Inr clientValidity \<Rightarrow>
     (case main_csrVerifier P cl env w of
        (w, Exit c) \<Rightarrow> (w, Exit c)
      | (w, Ret csrVerifier) \<Rightarrow>
     (case main_svc P cl env depot allowRenewal clientValidity csrVerifier w of
        (w, Exit c) \<Rightarrow> (w, Exit c)
      | (w, Ret svc) \<Rightarrow>
          (w, Ret \<lparr>l_lambda = flLambda cl env, l_httpAddr = httpAddr, l_svc = svc\<rparr>))))))"

text \<open>
  \<^verbatim>\<open>main\<close>, with \<open>args\<close> for \<^verbatim>\<open>os.Args[1:]\<close>: the \<^verbatim>\<open>ca\<close> subcommand, the flags, the
  version, the listen address, the debug block, and then the rest.
\<close>

definition main :: "platform \<Rightarrow> environ \<Rightarrow> string list \<Rightarrow> world \<Rightarrow> world \<times> launch ctl" where
  "main P env args w =
     (if args \<noteq> [] \<and> hd args = ''ca'' then
        (case caMain P env (tl args) w of
           (w, Exit c) \<Rightarrow> (w, Exit c)
         | (w, Ret status) \<Rightarrow> (w, Exit status))
      else
     (case parseMain P args of
        Inl c \<Rightarrow> (w, Exit c)
      | Inr cl \<Rightarrow>
     if flVersion cl env then (emit (Stdout version) w, Exit 0)
     else
     (case main_httpAddr cl env w of
        (w, Exit c) \<Rightarrow> (w, Exit c)
      | (w, Ret httpAddr) \<Rightarrow>
          (let w = main_logFlags cl env w;
               w = main_listFiles P cl env w;
               w = main_deleteCA P cl env w
           in main_serve P env args cl httpAddr w))))"

section \<open>Signing through the chain\<close>

text \<open>
  The signing operation of the three signers lives in the packages \<^verbatim>\<open>server\<close>,
  \<^verbatim>\<open>csrverifier\<close> and \<^verbatim>\<open>depot\<close>, which are not in this file.
\<close>

text \<open>
  Modelled from the spec: the \<^verbatim>\<open>SigningRequest\<close> of the data model, "a certificate-signing
  request plus an optional embedded challenge attribute".
\<close>

record SigningRequest =
  csr :: bytes
  challenge :: "string option"

text \<open>
  Modelled from the spec: the external verification collaborator "accepts CSR bytes,
  returns accept/reject plus optional diagnostic", or fails with an error.
\<close>

datatype verdict = Accept | Reject "string option" | VerifierError error

text \<open>What a signing call did, in order: the collaborator calls that count.\<close>

datatype sign_event =
    VerifierAsked verifier bytes
  | ChallengeCompared string
  | DepotSigned depot

text \<open>
  Modelled from the spec: the collaborators behind the chain, the external verifier
  program and \<^verbatim>\<open>DepotSigner.sign\<close>, whose code is in the missing packages.
\<close>

record collaborators =
  verify :: "verifier \<Rightarrow> bytes \<Rightarrow> verdict"
  depot_sign :: "depot \<Rightarrow> signer_option list \<Rightarrow> SigningRequest \<Rightarrow> error + cert"

text \<open>
  Modelled from the spec: the \<^verbatim>\<open>sign\<close> operation of the three signer variants (section
  4.4), whose code is in the missing packages. \<^verbatim>\<open>ExternalVerifierPolicy.sign\<close> "hands the
  raw CSR bytes to an external verification collaborator and rejects without invoking
  the inner chain if the collaborator rejects or errors"; \<^verbatim>\<open>ChallengePolicy.sign\<close>
  "compares the request's embedded challenge attribute against the configured secret;
  mismatch yields a rejection error without invoking the inner signer";
  \<^verbatim>\<open>DepotSigner.sign\<close> is the terminal collaborator.
\<close>

fun SignCSR ::
  "collaborators \<Rightarrow> signer \<Rightarrow> SigningRequest \<Rightarrow> sign_event list
     \<Rightarrow> (error + cert) \<times> sign_event list" where
  "SignCSR C (NewSigner d opts) m calls = (depot_sign C d opts m, calls @ [DepotSigned d])"
| "SignCSR C (ChallengeMiddleware secret next) m calls =
     (let calls = calls @ [ChallengeCompared secret] in
      if challenge m = Some secret then SignCSR C next m calls
      else (Inl (ErrOther ''invalid challenge''), calls))"
| "SignCSR C (Middleware v next) m calls =
     (let calls = calls @ [VerifierAsked v (csr m)] in
      case verify C v (csr m) of
        Accept \<Rightarrow> SignCSR C next m calls
      | Reject msg \<Rightarrow> (Inl (ErrOther ''CSR verify failed''), calls)
      | VerifierError err \<Rightarrow> (Inl err, calls))"

section \<open>The launch: two goroutines and the launcher\<close>

text \<open>
  Lines 216-238. \<^verbatim>\<open>errs\<close> is a channel of capacity 2. One goroutine runs the mode:
  with \<^verbatim>\<open>-lambda\<close> it logs and calls \<^verbatim>\<open>lambda.Start\<close>, and has no send; otherwise
  it logs, calls \<^verbatim>\<open>http.ListenAndServe\<close> and, once that returns, sends the error it
  returned on \<^verbatim>\<open>errs\<close>. The other goroutine asks for \<^verbatim>\<open>SIGINT\<close>, waits for one and
  sends its name as an error on \<^verbatim>\<open>errs\<close>. \<^verbatim>\<open>main\<close> receives from \<^verbatim>\<open>errs\<close>, logs the
  value and returns, which ends the process.

  The three run concurrently. The model makes the interleaving an input: a schedule is a
  list of ticks, each either a turn of one of the three (it takes its next step if it
  can, and stays where it is if it waits or its channel operation would block) or an
  event from outside (\<^verbatim>\<open>ListenAndServe\<close> returns an error, \<^verbatim>\<open>lambda.Start\<close> returns or
  ends the process, a \<^verbatim>\<open>SIGINT\<close> arrives). A send on a buffered channel goes through
  when there is room in the buffer and blocks otherwise; a receive takes the oldest
  value and blocks on an empty buffer. A \<^verbatim>\<open>SIGINT\<close> before \<^verbatim>\<open>signal.Notify\<close> ends the
  process, one that finds the watcher waiting is handed to it, and a later one is
  dropped. Once \<^verbatim>\<open>main\<close> has returned or the process was ended, nothing moves.
  \<open>sent\<close> keeps every value sent so far, with its sender.
\<close>

definition errsCap :: nat where
  "errsCap = 2"

datatype producer = ModeTask | SignalTask

datatype mode_pc = ModeStart | Listening | ListenReturned error | Serverless | ModeDone

datatype signal_pc = SignalStart | SignalWaiting | SignalCaught string | SignalDone

datatype launcher_pc = Blocked | Received error | Terminated | Killed

record lstate =
  errs :: "error list"
  sent :: "(producer \<times> error) list"
  modeTask :: mode_pc
  watcher :: signal_pc
  launcher :: launcher_pc
  logged :: "event list"

datatype tick =
    RunMode
  | ListenAndServeReturns error
  | LambdaStartReturns
  | LambdaStartExits
  | RunWatcher
  | Sigint
  | RunLauncher

definition launch_init :: lstate where
  "launch_init =
     \<lparr>errs = [], sent = [], modeTask = ModeStart, watcher = SignalStart, launcher = Blocked,
      logged = []\<rparr>"

definition alive :: "lstate \<Rightarrow> bool" where
  "alive s = (case launcher s of Blocked \<Rightarrow> True | Received v \<Rightarrow> True | _ \<Rightarrow> False)"

definition can_send :: "lstate \<Rightarrow> bool" where
  "can_send s = (length (errs s) < errsCap)"

definition do_send :: "producer \<Rightarrow> error \<Rightarrow> lstate \<Rightarrow> lstate" where
  "do_send who v s = s\<lparr>errs := errs s @ [v], sent := sent s @ [(who, v)]\<rparr>"

definition run_mode :: "launch \<Rightarrow> lstate \<Rightarrow> lstate" where
  "run_mode l s =
     (case modeTask s of
        ModeStart \<Rightarrow>
          if l_lambda l then
            s\<lparr>modeTask := Serverless,
              logged := logged s @
                [Log [(''transport'', LStr ''http''), (''context'', LStr ''lambda''),
                      (''msg'', LStr ''listening'')]]\<rparr>
          else
            s\<lparr>modeTask := Listening,
              logged := logged s @
                [Log [(''transport'', LStr ''http''), (''address'', LStr (l_httpAddr l)),
                      (''msg'', LStr ''listening'')]]\<rparr>
      | ListenReturned e \<Rightarrow>
          if can_send s then (do_send ModeTask e s)\<lparr>modeTask := ModeDone\<rparr> else s
      | _ \<Rightarrow> s)"

definition run_watcher :: "lstate \<Rightarrow> lstate" where
  "run_watcher s =
     (case watcher s of
        SignalStart \<Rightarrow> s\<lparr>watcher := SignalWaiting\<rparr>
      | SignalCaught x \<Rightarrow>
          if can_send s then (do_send SignalTask (ErrOther x) s)\<lparr>watcher := SignalDone\<rparr> else s
      | _ \<Rightarrow> s)"

definition run_launcher :: "lstate \<Rightarrow> lstate" where
  "run_launcher s =
     (case launcher s of
        Blocked \<Rightarrow>
          (case errs s of
             [] \<Rightarrow> s
           | v # rest \<Rightarrow> s\<lparr>errs := rest, launcher := Received v\<rparr>)
      | Received v \<Rightarrow>
          s\<lparr>launcher := Terminated,
            logged := logged s @ [Log [(''terminated'', LErr v)]]\<rparr>
      | _ \<Rightarrow> s)"

definition step :: "launch \<Rightarrow> lstate \<Rightarrow> tick \<Rightarrow> lstate" where
  "step l s t =
     (if \<not> alive s then s
      else case t of
        RunMode \<Rightarrow> run_mode l s
      | ListenAndServeReturns e \<Rightarrow>
          (if modeTask s = Listening then s\<lparr>modeTask := ListenReturned e\<rparr> else s)
      | LambdaStartReturns \<Rightarrow>
          (if modeTask s = Serverless then s\<lparr>modeTask := ModeDone\<rparr> else s)
      | LambdaStartExits \<Rightarrow>
          (if modeTask s = Serverless then s\<lparr>launcher := Killed\<rparr> else s)
      | RunWatcher \<Rightarrow> run_watcher s
      | Sigint \<Rightarrow>
          (case watcher s of
             SignalStart \<Rightarrow> s\<lparr>launcher := Killed\<rparr>
           | SignalWaiting \<Rightarrow> s\<lparr>watcher := SignalCaught ''interrupt''\<rparr>
           | _ \<Rightarrow> s)
      | RunLauncher \<Rightarrow> run_launcher s)"

definition run_launch :: "launch \<Rightarrow> tick list \<Rightarrow> lstate" where
  "run_launch l ts = foldl (step l) launch_init ts"

text \<open>
  What every schedule keeps true: each of the two senders has sent at most once, and only
  when it is done; the buffer holds the values sent and not yet received, in order; the
  launcher has received, and logged, the first value sent; and the mode goroutine is on
  the branch of its flag, with no send on the serverless one.
\<close>

definition launch_inv :: "launch \<Rightarrow> lstate \<Rightarrow> bool" where
  "launch_inv l s =
     (length (errs s) \<le> (if modeTask s = ModeDone then 1 else 0)
                          + (if watcher s = SignalDone then 1 else 0)
      \<and> length (sent s) \<le> (if modeTask s = ModeDone then 1 else 0)
                            + (if watcher s = SignalDone then 1 else 0)
      \<and> (case launcher s of
            Blocked \<Rightarrow> map snd (sent s) = errs s
          | Received v \<Rightarrow> map snd (sent s) = v # errs s
          | Terminated \<Rightarrow>
              logged s \<noteq> [] \<and> sent s \<noteq> []
              \<and> last (logged s) = Log [(''terminated'', LErr (snd (hd (sent s))))]
          | Killed \<Rightarrow> True)
      \<and> (if l_lambda l
          then (modeTask s = ModeStart \<or> modeTask s = Serverless \<or> modeTask s = ModeDone)
               \<and> ModeTask \<notin> fst ` set (sent s)
          else modeTask s \<noteq> Serverless))"

section \<open>A platform to run the model on\<close>

text \<open>
  Concrete inputs need a concrete platform. \<open>testPlatform\<close> injects no fault; its key
  generator refuses sizes under 12 bits (Go's reports too few primes for them) and
  otherwise returns a fixed key; its depot opens when the directory exists and reads
  the CA from the two files; its other collaborators succeed. \<open>parseAs argv cl\<close> is a
  flag parser that knows one command line: it reads \<open>argv\<close> as the flags \<open>cl\<close> and
  exits with status 2 on anything else.
\<close>

definition noFlags :: cmdline where
  "noFlags = \<lparr>sflag = Map.empty, bflag = Map.empty, iflag = Map.empty\<rparr>"

definition parseAs :: "string list \<Rightarrow> cmdline \<Rightarrow> string list \<Rightarrow> int + cmdline" where
  "parseAs argv cl args = (if args = argv then Inr cl else Inl 2)"

definition testPlatform ::
  "(string list \<Rightarrow> int + cmdline) \<Rightarrow> (string list \<Rightarrow> int + cmdline) \<Rightarrow> platform" where
  "testPlatform pm pc =
     \<lparr>io_fault = (\<lambda>op. None),
      undeletable = (\<lambda>p. False),
      parseMain = pm,
      parseCA = pc,
      rsa_GenerateKey = (\<lambda>bits.
        if bits < 12 then Inl (ErrOther ''crypto/rsa: too few primes of given length to generate an RSA key'')
        else Inr ''KEY''),
      x509_MarshalPKCS1PrivateKey = (\<lambda>k. ''DER '' @ k),
      x509_EncryptPEMBlock = (\<lambda>t d pw.
        Inr \<lparr>pem_Type = t, pem_Headers = [(''Proc-Type'', ''4,ENCRYPTED'')], pem_Bytes = d\<rparr>),
      pem_Encode = (\<lambda>b. Inr (''BEGIN '' @ pem_Type b @ '' '' @ pem_Bytes b)),
      pem_EncodeToMemory = (\<lambda>b. ''BEGIN '' @ pem_Type b @ '' '' @ pem_Bytes b),
      SelfSign = (\<lambda>c k. Inr (''CERT '' @ ca_commonName c)),
      NewFileDepot = (\<lambda>st p.
        case map_of st p of
          Some Dir \<Rightarrow> (Inr (FileDepot p), st)
        | _ \<Rightarrow> (Inl (ErrNotExist p), st)),
      depot_CA = (\<lambda>st d pw.
        case d of FileDepot p \<Rightarrow>
          (case (map_of st (filepath_Join p ''ca.pem''), map_of st (filepath_Join p ''ca.key'')) of
             (Some (File c), Some (File k)) \<Rightarrow> Inr ([c], k)
           | _ \<Rightarrow> Inl (ErrNotExist p))),
      executablecsrverifier_New = (\<lambda>st p. Inr (ExecutableCSRVerifier p)),
      NewService = (\<lambda>c k s. None)\<rparr>"

definition emptyWorld :: world where
  "emptyWorld = \<lparr>fs = [], trace = []\<rparr>"

text \<open>
  A platform whose operating system refuses every \<^verbatim>\<open>os.RemoveAll\<close> and lets it remove
  nothing.
\<close>

definition readOnlyPlatform ::
  "(string list \<Rightarrow> int + cmdline) \<Rightarrow> (string list \<Rightarrow> int + cmdline) \<Rightarrow> platform" where
  "readOnlyPlatform pm pc =
     (testPlatform pm pc)
       \<lparr>io_fault := (\<lambda>op.
          case op of OpRemoveAll p \<Rightarrow> Some (ErrOther ''read-only file system'') | _ \<Rightarrow> None),
        undeletable := (\<lambda>p. True)\<rparr>"

text \<open>
  A platform whose \<^verbatim>\<open>x509.EncryptPEMBlock\<close> fails, and one whose disk is full, so that
  every write to an open file fails.
\<close>

definition encryptFailPlatform ::
  "(string list \<Rightarrow> int + cmdline) \<Rightarrow> (string list \<Rightarrow> int + cmdline) \<Rightarrow> platform" where
  "encryptFailPlatform pm pc =
     (testPlatform pm pc)
       \<lparr>x509_EncryptPEMBlock := (\<lambda>t d pw. Inl (ErrOther ''x509: cannot generate IV''))\<rparr>"

definition diskFullPlatform ::
  "(string list \<Rightarrow> int + cmdline) \<Rightarrow> (string list \<Rightarrow> int + cmdline) \<Rightarrow> platform" where
  "diskFullPlatform pm pc =
     (testPlatform pm pc)
       \<lparr>io_fault := (\<lambda>op.
          case op of OpWrite p d \<Rightarrow> Some (ErrOther ''no space left on device'') | _ \<Rightarrow> None)\<rparr>"

text \<open>A depot that holds a CA.\<close>

definition depotWorld :: world where
  "depotWorld =
     \<lparr>fs = [(''depot'', Dir), (''depot/ca.pem'', File ''OLD CERT''),
            (''depot/ca.key'', File ''OLD KEY'')],
      trace = []\<rparr>"

text \<open>
  A store with two certificate and key pairs and no depot, the two command lines that
  copy one pair each, the flags they set, and a parser that knows both.
\<close>

definition copyWorld :: world where
  "copyWorld =
     \<lparr>fs = [(''/tmp/old.pem'', File ''OLD CERT''), (''/tmp/old.key'', File ''OLD KEY''),
            (''/tmp/new.pem'', File ''NEW CERT''), (''/tmp/new.key'', File ''NEW KEY'')],
      trace = []\<rparr>"

definition copyOldArgs :: "string list" where
  "copyOldArgs = [''-path-cert'', ''/tmp/old.pem'', ''-path-key'', ''/tmp/old.key'']"

definition copyOldFlags :: cmdline where
  "copyOldFlags =
     noFlags\<lparr>sflag := [''path-cert'' \<mapsto> ''/tmp/old.pem'', ''path-key'' \<mapsto> ''/tmp/old.key'']\<rparr>"

definition copyNewArgs :: "string list" where
  "copyNewArgs = [''-path-cert'', ''/tmp/new.pem'', ''-path-key'', ''/tmp/new.key'']"

definition copyNewFlags :: cmdline where
  "copyNewFlags =
     noFlags\<lparr>sflag := [''path-cert'' \<mapsto> ''/tmp/new.pem'', ''path-key'' \<mapsto> ''/tmp/new.key'']\<rparr>"

definition copyParser :: "string list \<Rightarrow> int + cmdline" where
  "copyParser args =
     (if args = copyOldArgs then Inr copyOldFlags
      else if args = copyNewArgs then Inr copyNewFlags
      else Inl 2)"

text \<open>The flags of the other examples.\<close>

definition keySizeFlags :: cmdline where
  "keySizeFlags = noFlags\<lparr>iflag := [''keySize'' \<mapsto> 0]\<rparr>"

definition keySizeParser :: "string list \<Rightarrow> int + cmdline" where
  "keySizeParser args =
     (if args = [''-keySize'', ''0''] then Inr keySizeFlags else parseAs [] noFlags args)"

definition versionFlags :: cmdline where
  "versionFlags = noFlags\<lparr>bflag := [''version'' \<mapsto> True]\<rparr>"

definition bothAddrFlags :: cmdline where
  "bothAddrFlags = noFlags\<lparr>sflag := [''http-addr'' \<mapsto> '':9001'', ''port'' \<mapsto> ''9002'']\<rparr>"

definition portFlags :: cmdline where
  "portFlags = noFlags\<lparr>sflag := [''port'' \<mapsto> ''9002'']\<rparr>"

definition deleteFlags :: cmdline where
  "deleteFlags = noFlags\<lparr>bflag := [''delete-ca'' \<mapsto> True]\<rparr>"

text \<open>The environments of the examples.\<close>

definition bothAddrEnv :: environ where
  "bothAddrEnv = [''SCEP_HTTP_ADDR'' \<mapsto> '':9001'', ''SCEP_HTTP_LISTEN_PORT'' \<mapsto> ''9002'']"

definition bothAddrInlineEnv :: environ where
  "bothAddrInlineEnv =
     [''SCEP_HTTP_ADDR'' \<mapsto> '':9001'', ''SCEP_HTTP_LISTEN_PORT'' \<mapsto> ''9002'',
      ''SCEP_INLINE_CERT'' \<mapsto> ''CERT'', ''SCEP_INLINE_KEY'' \<mapsto> ''KEY'']"

definition emptyAddrEnv :: environ where
  "emptyAddrEnv = [''SCEP_HTTP_ADDR'' \<mapsto> []]"

definition halfInlineEnv :: environ where
  "halfInlineEnv = [''SCEP_INLINE_CERT'' \<mapsto> ''CERT'']"

definition policyEnv :: environ where
  "policyEnv =
     [''SCEP_CHALLENGE_PASSWORD'' \<mapsto> ''secret'', ''SCEP_CSR_VERIFIER_EXEC'' \<mapsto> ''/bin/verify'']"

text \<open>A launch in either mode, as \<^verbatim>\<open>main\<close> builds it on the depot that holds a CA.\<close>

definition exampleService :: service where
  "exampleService =
     \<lparr>svc_cert = ''OLD CERT'', svc_key = ''OLD KEY'',
      svc_signer = NewSigner (FileDepot ''depot'')
        [WithAllowRenewalDays 14, WithValidityDays 365, WithCAPass []]\<rparr>"

definition listenerLaunch :: launch where
  "listenerLaunch = \<lparr>l_lambda = False, l_httpAddr = '':8080'', l_svc = exampleService\<rparr>"

definition lambdaLaunch :: launch where
  "lambdaLaunch = \<lparr>l_lambda = True, l_httpAddr = '':8080'', l_svc = exampleService\<rparr>"

text \<open>Collaborators whose external verifier rejects every request.\<close>

definition rejecting :: collaborators where
  "rejecting =
     \<lparr>verify = (\<lambda>v b. Reject (Some ''no'')),
      depot_sign = (\<lambda>d opts m. Inr ''SIGNED'')\<rparr>"

section \<open>Facts about the model\<close>

lemma trace_emit: "trace (emit e w) = trace w @ [e]"
  by (simp add: emit_def)

lemma fs_emit: "fs (emit e w) = fs w"
  by (simp add: emit_def)

subsection \<open>Every call adds to the trace, and the file-system calls add themselves\<close>

lemma trace_MkdirAll:
  "os_MkdirAll P p w = (w', r) \<Longrightarrow> trace w' = trace w @ [Sys (OpMkdirAll p)]"
  by (auto simp: os_MkdirAll_def Let_def trace_emit split: option.splits node.splits if_splits)

lemma trace_OpenFile:
  "os_OpenFile_excl P p w = (w', r) \<Longrightarrow> trace w' = trace w @ [Sys (OpOpenExcl p)]"
  by (auto simp: os_OpenFile_excl_def Let_def trace_emit split: option.splits node.splits)

lemma trace_Write:
  "file_Write P p d w = (w', r) \<Longrightarrow> trace w' = trace w @ [Sys (OpWrite p d)]"
  by (auto simp: file_Write_def Let_def trace_emit split: option.splits node.splits)

lemma trace_Remove: "trace (fst (os_Remove P p w)) = trace w @ [Sys (OpRemove p)]"
  by (auto simp: os_Remove_def Let_def trace_emit split: option.splits node.splits)

lemma trace_ReadFile:
  "ioutil_ReadFile P p w = (w', r) \<Longrightarrow> trace w' = trace w @ [Sys (OpReadFile p)]"
  by (auto simp: ioutil_ReadFile_def Let_def trace_emit split: option.splits node.splits)

lemma trace_WriteFile:
  "ioutil_WriteFile P p d w = (w', r) \<Longrightarrow> trace w' = trace w @ [Sys (OpWriteFile p d)]"
  by (auto simp: ioutil_WriteFile_def Let_def trace_emit split: option.splits node.splits)

lemma trace_NewFileDepot:
  "file_NewFileDepot P p w = (w', r) \<Longrightarrow> trace w' = trace w @ [Ext (CallNewFileDepot p)]"
  by (auto simp: file_NewFileDepot_def Let_def trace_emit split: prod.splits)

lemma ext_pem_Encode_to:
  "pem_Encode_to P p b w = (w', r) \<Longrightarrow> \<exists>tr. trace w' = trace w @ tr"
  by (auto simp: pem_Encode_to_def Let_def trace_emit split: sum.splits dest!: trace_Write)

lemma ext_copyFileToDepot:
  "copyFileToDepot P src d n w = (w', r) \<Longrightarrow> \<exists>tr. trace w' = trace w @ tr"
  by (auto simp: copyFileToDepot_def split: prod.splits option.splits sum.splits
      dest!: trace_MkdirAll trace_ReadFile trace_WriteFile)

lemma ext_storeFileInDepot:
  "storeFileInDepot P d n data w = (w', r) \<Longrightarrow> \<exists>tr. trace w' = trace w @ tr"
  by (auto simp: storeFileInDepot_def Let_def trace_Remove split: prod.splits option.splits
      dest!: trace_MkdirAll trace_OpenFile trace_Write)

lemma ext_createKey:
  "createKey P bits pw d w = (w', r) \<Longrightarrow> \<exists>tr. trace w' = trace w @ tr"
  by (auto simp: createKey_def Let_def trace_Remove trace_emit
      split: prod.splits option.splits sum.splits
      dest!: trace_MkdirAll trace_OpenFile ext_pem_Encode_to)

lemma ext_createCertificateAuthority:
  "createCertificateAuthority P key y cn org ou c d w = (w', r) \<Longrightarrow>
     \<exists>tr. trace w' = trace w @ tr"
  by (auto simp: createCertificateAuthority_def Let_def trace_emit split: sum.splits
      dest!: ext_storeFileInDepot)

lemma ext_caMain_inline:
  "caMain_inline P d c k w = (w', r) \<Longrightarrow> \<exists>tr. trace w' = trace w @ tr"
  by (auto simp: caMain_inline_def Let_def trace_emit split: prod.splits option.splits
      dest!: ext_storeFileInDepot)

lemma ext_caMain_pathCopy:
  "caMain_pathCopy P d c k w = (w', r) \<Longrightarrow> \<exists>tr. trace w' = trace w @ tr"
  by (auto simp: caMain_pathCopy_def Let_def trace_emit split: prod.splits option.splits
      dest!: ext_copyFileToDepot)

lemma ext_caMain_generate:
  "caMain_generate P d bits pw y cn org ou c w = (w', r) \<Longrightarrow> \<exists>tr. trace w' = trace w @ tr"
  by (auto simp: caMain_generate_def Let_def trace_emit
      split: prod.splits option.splits sum.splits
      dest!: ext_createKey ext_createCertificateAuthority)

lemma ext_envInt: "envInt env k d w = (w', r) \<Longrightarrow> \<exists>tr. trace w' = trace w @ tr"
  by (auto simp: envInt_def Let_def trace_emit split: sum.splits if_splits)

lemma ext_caMain: "caMain P env args w = (w', r) \<Longrightarrow> \<exists>tr. trace w' = trace w @ tr"
  by (auto simp: caMain_def Let_def trace_emit split: prod.splits ctl.splits sum.splits if_splits
      dest!: ext_envInt ext_caMain_inline ext_caMain_pathCopy ext_caMain_generate)

lemma ext_main_depot:
  "main_depot P env args cl w = (w', r) \<Longrightarrow>
     \<exists>tr. trace w' = trace w @ Ext (CallNewFileDepot (flDepotPath cl env)) # tr"
  by (auto simp: main_depot_def Let_def trace_emit
      split: prod.splits ctl.splits sum.splits if_splits
      dest!: trace_NewFileDepot ext_caMain)

lemma ext_main_csrVerifier:
  "main_csrVerifier P cl env w = (w', r) \<Longrightarrow> \<exists>tr. trace w' = trace w @ tr"
  by (auto simp: main_csrVerifier_def Let_def trace_emit split: sum.splits if_splits)

lemma ext_main_svc:
  "main_svc P cl env d a v c w = (w', r) \<Longrightarrow> \<exists>tr. trace w' = trace w @ tr"
  by (auto simp: main_svc_def Let_def trace_emit
      split: sum.splits if_splits option.splits prod.splits)

text \<open>The first thing the rest of \<^verbatim>\<open>main\<close> does is to open the depot.\<close>

lemma ext_main_serve:
  "\<exists>tr. trace (fst (main_serve P env args cl a w)) =
          trace w @ Ext (CallNewFileDepot (flDepotPath cl env)) # tr"
  by (auto simp: main_serve_def trace_emit split: prod.splits ctl.splits sum.splits
      dest!: ext_main_depot ext_main_csrVerifier ext_main_svc)

subsection \<open>What the rest of \<^verbatim>\<open>main\<close> hands on\<close>

lemma main_serve_addr:
  "main_serve P env args cl a w = (w', Ret l) \<Longrightarrow> l_httpAddr l = a"
  by (auto simp: main_serve_def split: prod.splits ctl.splits sum.splits)

lemma main_serve_signer:
  assumes "main_serve P env args cl a w = (w', Ret l)"
      and "flCSRVerifierExec cl env \<noteq> []"
  shows "\<exists>depot opts v.
           svc_signer (l_svc l) = main_signer depot opts (flChallengePassword cl env) (Some v)"
proof -
  have svc: "\<exists>opts. svc_signer svc = main_signer d opts (flChallengePassword cl env) cv"
    if "main_svc P cl env d ar va cv x = (x', Ret svc)" for d ar va cv x x' svc
    using that
    by (auto simp: main_svc_def Let_def split: sum.splits if_splits option.splits prod.splits)
  have ver: "\<exists>v. cv = Some v"
    if "main_csrVerifier P cl env x = (x', Ret cv)" for x x' cv
    using that assms(2)
    by (auto simp: main_csrVerifier_def Let_def split: sum.splits if_splits)
  show ?thesis
    using assms(1)
    apply (auto simp: main_serve_def split: prod.splits ctl.splits sum.splits dest!: svc ver)
    apply blast
    done
qed

subsection \<open>The file store after a recursive removal\<close>

lemma map_of_fs_del_tree:
  "map_of (fs_del_tree d st) p = (if within d p then None else map_of st p)"
  by (induction st) (auto simp: fs_del_tree_def)

lemma map_of_fs_del_some:
  "map_of (fs_del_some keep d st) p =
     (if within d p \<and> \<not> keep p then None else map_of st p)"
  by (induction st) (auto simp: fs_del_some_def)

lemma within_Join: "d \<noteq> [] \<Longrightarrow> within d (filepath_Join d n)"
  by (simp add: within_def filepath_Join_def)

subsection \<open>Banners in the trace\<close>

lemma started_append:
  "strategies_started (xs @ ys) = strategies_started xs @ strategies_started ys"
  by (simp add: strategies_started_def)

lemma started_emit:
  "strategies_started (trace (emit e w)) = strategies_started (trace w) @ started e"
  by (simp add: trace_emit strategies_started_def)

lemma started_MkdirAll:
  "os_MkdirAll P p w = (w', r) \<Longrightarrow>
     strategies_started (trace w') = strategies_started (trace w)"
  by (auto simp: started_append strategies_started_def dest!: trace_MkdirAll)

lemma started_OpenFile:
  "os_OpenFile_excl P p w = (w', r) \<Longrightarrow>
     strategies_started (trace w') = strategies_started (trace w)"
  by (auto simp: started_append strategies_started_def dest!: trace_OpenFile)

lemma started_Write:
  "file_Write P p d w = (w', r) \<Longrightarrow>
     strategies_started (trace w') = strategies_started (trace w)"
  by (auto simp: started_append strategies_started_def dest!: trace_Write)

lemma started_Remove:
  "strategies_started (trace (fst (os_Remove P p w))) = strategies_started (trace w)"
  by (simp add: trace_Remove strategies_started_def)

lemma started_ReadFile:
  "ioutil_ReadFile P p w = (w', r) \<Longrightarrow>
     strategies_started (trace w') = strategies_started (trace w)"
  by (auto simp: started_append strategies_started_def dest!: trace_ReadFile)

lemma started_WriteFile:
  "ioutil_WriteFile P p d w = (w', r) \<Longrightarrow>
     strategies_started (trace w') = strategies_started (trace w)"
  by (auto simp: started_append strategies_started_def dest!: trace_WriteFile)

lemma started_pem_Encode_to:
  "pem_Encode_to P p b w = (w', r) \<Longrightarrow>
     strategies_started (trace w') = strategies_started (trace w)"
  by (auto simp: pem_Encode_to_def Let_def started_emit split: sum.splits dest!: started_Write)

lemma started_copyFileToDepot:
  "copyFileToDepot P src d n w = (w', r) \<Longrightarrow>
     strategies_started (trace w') = strategies_started (trace w)"
  by (auto simp: copyFileToDepot_def split: prod.splits option.splits sum.splits
      dest!: started_MkdirAll started_ReadFile started_WriteFile)

lemma started_storeFileInDepot:
  "storeFileInDepot P d n data w = (w', r) \<Longrightarrow>
     strategies_started (trace w') = strategies_started (trace w)"
  by (auto simp: storeFileInDepot_def Let_def started_Remove split: prod.splits option.splits
      dest!: started_MkdirAll started_OpenFile started_Write)

lemma started_createKey:
  "createKey P bits pw d w = (w', r) \<Longrightarrow>
     strategies_started (trace w') = strategies_started (trace w)"
  by (auto simp: createKey_def Let_def started_Remove started_emit
      split: prod.splits option.splits sum.splits
      dest!: started_MkdirAll started_OpenFile started_pem_Encode_to)

lemma started_createCertificateAuthority:
  "createCertificateAuthority P key y cn org ou c d w = (w', r) \<Longrightarrow>
     strategies_started (trace w') = strategies_started (trace w)"
  by (auto simp: createCertificateAuthority_def Let_def started_emit split: sum.splits
      dest!: started_storeFileInDepot)

lemma banners_distinct:
  "pathCopyBanner \<noteq> inlineBanner" "generateBanner \<noteq> inlineBanner"
  "generateBanner \<noteq> pathCopyBanner"
  by (simp_all add: inlineBanner_def pathCopyBanner_def generateBanner_def)

lemma started_caMain_inline:
  "strategies_started (trace (fst (caMain_inline P d c k w))) =
     strategies_started (trace w) @ [Inline]"
  by (auto simp: caMain_inline_def Let_def started_emit split: prod.splits option.splits
      dest!: started_storeFileInDepot)

lemma started_caMain_pathCopy:
  "strategies_started (trace (fst (caMain_pathCopy P d c k w))) =
     strategies_started (trace w) @ [PathCopy]"
  by (auto simp: caMain_pathCopy_def Let_def started_emit banners_distinct
      split: prod.splits option.splits dest!: started_copyFileToDepot)

lemma started_caMain_generate:
  "strategies_started (trace (fst (caMain_generate P d bits pw y cn org ou c w))) =
     strategies_started (trace w) @ [Generate]"
  by (auto simp: caMain_generate_def Let_def started_emit banners_distinct
      split: prod.splits option.splits sum.splits
      dest!: started_createKey started_createCertificateAuthority)

lemma started_init:
  "started (Stdout (if b then ''Initializing new CA via main CLI'' else ''Initializing new CA'')) = []"
  by (simp add: inlineBanner_def pathCopyBanner_def generateBanner_def)

subsection \<open>Unfolding the model on a concrete input\<close>

lemmas flag_defs =
  flag_String_def flag_Bool_def flag_Int_def envString_def envBool_def envInt_def Getenv_def
  LookupEnv_def setByUser_def userDefinedFlags_def
  flVersion_def flHTTPAddr_def flPort_def flDepotPath_def flCAPass_def flClDuration_def
  flClAllowRenewal_def flChallengePassword_def flCSRVerifierExec_def flDebug_def flLogJSON_def
  flInitCA_def flSignServerAttrs_def flLambda_def flDeleteCA_def
  ca_flDepotPath_def ca_flInit_def ca_flYears_def ca_flKeySize_def ca_flCommonName_def
  ca_flOrg_def ca_flOrgUnit_def ca_flPassword_def ca_flCountry_def ca_flInlineCert_def
  ca_flInlineKey_def ca_flPathCert_def ca_flPathKey_def

lemmas store_defs =
  os_MkdirAll_def os_OpenFile_excl_def file_Write_def os_Remove_def os_RemoveAll_def
  ioutil_ReadFile_def ioutil_WriteFile_def ioutil_ReadDir_def children_def
  emit_def fs_put_def fs_del_def fs_del_tree_def fs_del_some_def within_def filepath_Join_def
  Let_def

lemmas ca_defs =
  caMain_def caMain_inline_def caMain_pathCopy_def caMain_generate_def copyFileToDepot_def
  storeFileInDepot_def createKey_def createCertificateAuthority_def pemCert_def
  pem_Encode_to_def rsaPrivateKeyPEMBlockType_def certificatePEMBlockType_def
  inlineBanner_def pathCopyBanner_def generateBanner_def

lemmas main_defs =
  main_def main_serve_def main_httpAddr_def main_logFlags_def main_listFiles_def
  main_deleteCA_def main_depot_def file_NewFileDepot_def main_csrVerifier_def main_signer_def
  main_svc_def version_def Atoi_def is_digit_def digit_val_def decimal_def

lemmas example_defs =
  testPlatform_def parseAs_def noFlags_def emptyWorld_def depotWorld_def

subsection \<open>The launch under every schedule\<close>

lemma launch_inv_init: "launch_inv l launch_init"
  by (simp add: launch_inv_def launch_init_def)

lemma launch_inv_run_mode: "launch_inv l s \<Longrightarrow> alive s \<Longrightarrow> launch_inv l (run_mode l s)"
  by (cases "launcher s")
     (auto simp: launch_inv_def run_mode_def can_send_def do_send_def errsCap_def alive_def
        split: mode_pc.splits if_splits)

lemma launch_inv_run_watcher: "launch_inv l s \<Longrightarrow> alive s \<Longrightarrow> launch_inv l (run_watcher s)"
  by (cases "launcher s")
     (auto simp: launch_inv_def run_watcher_def can_send_def do_send_def errsCap_def alive_def
        split: signal_pc.splits if_splits)

lemma launch_inv_run_launcher: "launch_inv l s \<Longrightarrow> alive s \<Longrightarrow> launch_inv l (run_launcher s)"
  by (cases "launcher s"; cases "errs s"; cases "sent s")
     (auto simp: launch_inv_def run_launcher_def alive_def split: if_splits)

lemma launch_inv_step: "launch_inv l s \<Longrightarrow> launch_inv l (step l s t)"
proof (cases "alive s")
  case False
  then show "launch_inv l s \<Longrightarrow> ?thesis" by (simp add: step_def)
next
  case True
  assume i: "launch_inv l s"
  show ?thesis
  proof (cases t)
    case RunMode
    then show ?thesis using i True by (simp add: step_def launch_inv_run_mode)
  next
    case (ListenAndServeReturns e)
    then show ?thesis using i True
      by (cases "launcher s") (auto simp: step_def launch_inv_def alive_def split: if_splits)
  next
    case LambdaStartReturns
    then show ?thesis using i True
      by (cases "launcher s") (auto simp: step_def launch_inv_def alive_def split: if_splits)
  next
    case LambdaStartExits
    then show ?thesis using i True
      by (auto simp: step_def launch_inv_def alive_def split: if_splits)
  next
    case RunWatcher
    then show ?thesis using i True by (simp add: step_def launch_inv_run_watcher)
  next
    case Sigint
    then show ?thesis using i True
      by (cases "launcher s")
         (auto simp: step_def launch_inv_def alive_def split: signal_pc.splits if_splits)
  next
    case RunLauncher
    then show ?thesis using i True by (simp add: step_def launch_inv_run_launcher)
  qed
qed

lemma launch_inv_run: "launch_inv l (run_launch l ts)"
  unfolding run_launch_def
  by (induction ts rule: rev_induct) (simp_all add: launch_inv_init launch_inv_step)

lemmas launch_defs =
  run_launch_def step_def alive_def run_mode_def run_watcher_def run_launcher_def can_send_def
  do_send_def errsCap_def launch_init_def listenerLaunch_def lambdaLaunch_def

section \<open>The signer chain\<close>

text \<open>
  Claim C1. When both a challenge secret and an external CSR verifier are configured and
  start-up reaches the launch, the signer in the service is the verifier middleware
  around the challenge middleware around the depot signer; and for every collaborator
  set and every request the verifier does not accept, signing that request fails after
  one call, the one to the verifier: the record of calls gains \<open>VerifierAsked\<close> alone,
  so the challenge is not compared and the depot signer is not invoked. The composition
  is that of lines 192-198; the \<open>sign\<close> operation is the one modelled from the
  specification.
\<close>

theorem C1_verifier_rejects_before_challenge_and_depot:
  assumes "parseMain P args = Inr cl"
      and "main P env args w = (w', Ret l)"
      and "flChallengePassword cl env \<noteq> []"
      and "flCSRVerifierExec cl env \<noteq> []"
  shows "\<exists>v depot opts.
           svc_signer (l_svc l) =
             Middleware v (ChallengeMiddleware (flChallengePassword cl env) (NewSigner depot opts))
         \<and> (\<forall>C m calls. verify C v (csr m) \<noteq> Accept \<longrightarrow>
              (\<exists>err. SignCSR C (svc_signer (l_svc l)) m calls =
                        (Inl err, calls @ [VerifierAsked v (csr m)])))"
proof -
  have "\<exists>a w1. main_serve P env args cl a w1 = (w', Ret l)"
    using assms(1,2)
    by (auto simp: main_def Let_def split: if_splits prod.splits ctl.splits)
  then obtain depot opts v where
    s: "svc_signer (l_svc l) = main_signer depot opts (flChallengePassword cl env) (Some v)"
    using main_serve_signer assms(4) by blast
  have shape: "svc_signer (l_svc l) =
      Middleware v (ChallengeMiddleware (flChallengePassword cl env) (NewSigner depot opts))"
    using s assms(3) by (simp add: main_signer_def)
  have "\<exists>err. SignCSR C (svc_signer (l_svc l)) m calls =
                 (Inl err, calls @ [VerifierAsked v (csr m)])"
    if "verify C v (csr m) \<noteq> Accept" for C m calls
    using that unfolding shape by (cases "verify C v (csr m)") auto
  with shape show ?thesis by blast
qed

text \<open>
  The server started on a depot that holds a CA, with the challenge secret and the
  verifier program given in the environment: the launch is reached with the chain of
  claim C1, and a request that carries the right challenge is still refused by the
  rejecting verifier after the single call to it.
\<close>

theorem C1_witness:
  "parseMain (testPlatform (parseAs [] noFlags) (parseAs [] noFlags)) [] = Inr noFlags
   \<and> flChallengePassword noFlags policyEnv = ''secret''
   \<and> flCSRVerifierExec noFlags policyEnv = ''/bin/verify''
   \<and> snd (main (testPlatform (parseAs [] noFlags) (parseAs [] noFlags)) policyEnv [] depotWorld) =
       Ret \<lparr>l_lambda = False, l_httpAddr = '':8080'',
            l_svc = \<lparr>svc_cert = ''OLD CERT'', svc_key = ''OLD KEY'',
                     svc_signer =
                       Middleware (ExecutableCSRVerifier ''/bin/verify'')
                         (ChallengeMiddleware ''secret''
                           (NewSigner (FileDepot ''depot'')
                             [WithAllowRenewalDays 14, WithValidityDays 365, WithCAPass []]))\<rparr>\<rparr>
   \<and> SignCSR rejecting
         (Middleware (ExecutableCSRVerifier ''/bin/verify'')
           (ChallengeMiddleware ''secret''
             (NewSigner (FileDepot ''depot'')
               [WithAllowRenewalDays 14, WithValidityDays 365, WithCAPass []])))
         \<lparr>csr = ''CSR'', challenge = Some ''secret''\<rparr> [] =
       (Inl (ErrOther ''CSR verify failed''),
        [VerifierAsked (ExecutableCSRVerifier ''/bin/verify'') ''CSR''])"
proof -
  let ?P = "testPlatform (parseAs [] noFlags) (parseAs [] noFlags)"
  let ?l = "\<lparr>l_lambda = False, l_httpAddr = '':8080'',
            l_svc = \<lparr>svc_cert = ''OLD CERT'', svc_key = ''OLD KEY'',
                     svc_signer =
                       Middleware (ExecutableCSRVerifier ''/bin/verify'')
                         (ChallengeMiddleware ''secret''
                           (NewSigner (FileDepot ''depot'')
                             [WithAllowRenewalDays 14, WithValidityDays 365, WithCAPass []]))\<rparr>\<rparr>"
  have h1: "parseMain ?P [] = Inr noFlags"
    by (simp add: testPlatform_def parseAs_def)
  have c: "flChallengePassword noFlags policyEnv = ''secret''"
    by (simp add: flag_defs example_defs policyEnv_def)
  have v: "flCSRVerifierExec noFlags policyEnv = ''/bin/verify''"
    by (simp add: flag_defs example_defs policyEnv_def)
  have run: "snd (main ?P policyEnv [] depotWorld) = Ret ?l"
    by (simp add: main_defs flag_defs store_defs example_defs policyEnv_def)
  have h2: "main ?P policyEnv [] depotWorld = (fst (main ?P policyEnv [] depotWorld), Ret ?l)"
    using run by (simp add: prod_eq_iff)
  have h3: "flChallengePassword noFlags policyEnv \<noteq> []" using c by simp
  have h4: "flCSRVerifierExec noFlags policyEnv \<noteq> []" using v by simp
  from C1_verifier_rejects_before_challenge_and_depot [OF h1 h2 h3 h4]
  obtain x where
    "\<forall>C m calls. verify C x (csr m) \<noteq> Accept \<longrightarrow>
       (\<exists>err. SignCSR C (svc_signer (l_svc ?l)) m calls = (Inl err, calls @ [VerifierAsked x (csr m)]))"
    and "x = ExecutableCSRVerifier ''/bin/verify''"
    by auto
  then have "\<exists>err. SignCSR rejecting (svc_signer (l_svc ?l)) \<lparr>csr = ''CSR'', challenge = Some ''secret''\<rparr> [] =
      (Inl err, [] @ [VerifierAsked (ExecutableCSRVerifier ''/bin/verify'') (csr \<lparr>csr = ''CSR'', challenge = Some ''secret''\<rparr>)])"
    by (simp add: rejecting_def)
  then have "SignCSR rejecting (svc_signer (l_svc ?l)) \<lparr>csr = ''CSR'', challenge = Some ''secret''\<rparr> [] =
      (Inl (ErrOther ''CSR verify failed''), [VerifierAsked (ExecutableCSRVerifier ''/bin/verify'') ''CSR''])"
    by (simp add: rejecting_def)
  then show ?thesis using h1 c v run by simp
qed

section \<open>Bootstrapping the CA\<close>

text \<open>
  Claim C2 says the path-copy strategy creates \<^verbatim>\<open>ca.pem\<close> and \<^verbatim>\<open>ca.key\<close> exclusively, so
  that on a depot that already holds them it fails and leaves them as they were. It does
  not: \<^verbatim>\<open>copyFileToDepot\<close> writes with \<^verbatim>\<open>ioutil.WriteFile\<close>, which truncates an
  existing file. Run \<^verbatim>\<open>ca -path-cert /tmp/old.pem -path-key /tmp/old.key\<close> on a store
  without a depot and the depot holds \<^verbatim>\<open>OLD CERT\<close> and \<^verbatim>\<open>OLD KEY\<close>; run
  \<^verbatim>\<open>ca -path-cert /tmp/new.pem -path-key /tmp/new.key\<close> next, and \<^verbatim>\<open>caMain\<close> returns
  status 0 again and both files hold the new bytes. The inline branch, given the new
  bytes after the first run, stops at its first exclusive create and changes nothing.
\<close>

theorem C2_path_copy_overwrites_existing_ca:
  "caMain (testPlatform (parseAs [] noFlags) copyParser) Map.empty copyOldArgs copyWorld =
     (\<lparr>fs = [(''depot/ca.key'', File ''OLD KEY''), (''depot/ca.pem'', File ''OLD CERT''),
             (''depot'', Dir),
             (''/tmp/old.pem'', File ''OLD CERT''), (''/tmp/old.key'', File ''OLD KEY''),
             (''/tmp/new.pem'', File ''NEW CERT''), (''/tmp/new.key'', File ''NEW KEY'')],
       trace = [Stdout ''Initializing new CA'', Stdout ''Coping key and cert into CA depot'',
                Sys (OpMkdirAll ''depot''), Sys (OpReadFile ''/tmp/old.pem''),
                Sys (OpWriteFile ''depot/ca.pem'' ''OLD CERT''),
                Sys (OpMkdirAll ''depot''), Sys (OpReadFile ''/tmp/old.key''),
                Sys (OpWriteFile ''depot/ca.key'' ''OLD KEY'')]\<rparr>,
      Ret 0)
   \<and> caMain (testPlatform (parseAs [] noFlags) copyParser) Map.empty copyNewArgs
       \<lparr>fs = [(''depot/ca.key'', File ''OLD KEY''), (''depot/ca.pem'', File ''OLD CERT''),
              (''depot'', Dir),
              (''/tmp/old.pem'', File ''OLD CERT''), (''/tmp/old.key'', File ''OLD KEY''),
              (''/tmp/new.pem'', File ''NEW CERT''), (''/tmp/new.key'', File ''NEW KEY'')],
        trace = []\<rparr> =
     (\<lparr>fs = [(''depot/ca.key'', File ''NEW KEY''), (''depot/ca.pem'', File ''NEW CERT''),
             (''depot'', Dir),
             (''/tmp/old.pem'', File ''OLD CERT''), (''/tmp/old.key'', File ''OLD KEY''),
             (''/tmp/new.pem'', File ''NEW CERT''), (''/tmp/new.key'', File ''NEW KEY'')],
       trace = [Stdout ''Initializing new CA'', Stdout ''Coping key and cert into CA depot'',
                Sys (OpMkdirAll ''depot''), Sys (OpReadFile ''/tmp/new.pem''),
                Sys (OpWriteFile ''depot/ca.pem'' ''NEW CERT''),
                Sys (OpMkdirAll ''depot''), Sys (OpReadFile ''/tmp/new.key''),
                Sys (OpWriteFile ''depot/ca.key'' ''NEW KEY'')]\<rparr>,
      Ret 0)
   \<and> caMain_inline (testPlatform (parseAs [] noFlags) copyParser) ''depot''
         ''NEW CERT'' ''NEW KEY''
       \<lparr>fs = [(''depot/ca.key'', File ''OLD KEY''), (''depot/ca.pem'', File ''OLD CERT''),
              (''depot'', Dir),
              (''/tmp/old.pem'', File ''OLD CERT''), (''/tmp/old.key'', File ''OLD KEY''),
              (''/tmp/new.pem'', File ''NEW CERT''), (''/tmp/new.key'', File ''NEW KEY'')],
        trace = []\<rparr> =
     (\<lparr>fs = [(''depot/ca.key'', File ''OLD KEY''), (''depot/ca.pem'', File ''OLD CERT''),
             (''depot'', Dir),
             (''/tmp/old.pem'', File ''OLD CERT''), (''/tmp/old.key'', File ''OLD KEY''),
             (''/tmp/new.pem'', File ''NEW CERT''), (''/tmp/new.key'', File ''NEW KEY'')],
       trace = [Stdout ''Storing ENV-provided cert and key to the depot'',
                Sys (OpMkdirAll ''depot''), Sys (OpOpenExcl ''depot/ca.pem''),
                StdoutErr (ErrExist ''depot/ca.pem'')]\<rparr>,
      1)"
  by (simp add: ca_defs flag_defs store_defs example_defs copyWorld_def copyParser_def
      copyOldArgs_def copyOldFlags_def copyNewArgs_def copyNewFlags_def)

text \<open>
  Claim C3 says that every failure after \<^verbatim>\<open>ca.key\<close> has been created removes the partial
  file. \<^verbatim>\<open>createKey\<close> removes it only when \<^verbatim>\<open>pem.Encode\<close> fails; when the key
  generation or the encryption fails it returns with the empty file in place. Run with
  \<^verbatim>\<open>-keySize 0\<close> on an empty store, \<^verbatim>\<open>caMain\<close> returns status 1 and leaves an empty
  \<^verbatim>\<open>depot/ca.key\<close>; the next run, with the default key size, is then refused by the
  exclusive create of that file. A failing encryption leaves the same empty file. A
  failing write of the encoded key, for contrast, is followed by the removal.
\<close>

theorem C3_failed_key_generation_leaves_key_file:
  "caMain (testPlatform (parseAs [] noFlags) keySizeParser) Map.empty [''-keySize'', ''0'']
       emptyWorld =
     (\<lparr>fs = [(''depot/ca.key'', File []), (''depot'', Dir)],
       trace = [Stdout ''Initializing new CA'', Stdout ''Generating new key and cert'',
                Sys (OpMkdirAll ''depot''), Sys (OpOpenExcl ''depot/ca.key''),
                Ext (CallGenerateKey 0),
                StdoutErr (ErrOther
                  ''crypto/rsa: too few primes of given length to generate an RSA key'')]\<rparr>,
      Ret 1)
   \<and> caMain (testPlatform (parseAs [] noFlags) keySizeParser) Map.empty []
       \<lparr>fs = [(''depot/ca.key'', File []), (''depot'', Dir)], trace = []\<rparr> =
     (\<lparr>fs = [(''depot/ca.key'', File []), (''depot'', Dir)],
       trace = [Stdout ''Initializing new CA'', Stdout ''Generating new key and cert'',
                Sys (OpMkdirAll ''depot''), Sys (OpOpenExcl ''depot/ca.key''),
                StdoutErr (ErrExist ''depot/ca.key'')]\<rparr>,
      Ret 1)
   \<and> caMain (encryptFailPlatform (parseAs [] noFlags) (parseAs [] noFlags)) Map.empty []
       emptyWorld =
     (\<lparr>fs = [(''depot/ca.key'', File []), (''depot'', Dir)],
       trace = [Stdout ''Initializing new CA'', Stdout ''Generating new key and cert'',
                Sys (OpMkdirAll ''depot''), Sys (OpOpenExcl ''depot/ca.key''),
                Ext (CallGenerateKey 4096), Ext CallEncryptPEMBlock,
                StdoutErr (ErrOther ''x509: cannot generate IV'')]\<rparr>,
      Ret 1)
   \<and> caMain (diskFullPlatform (parseAs [] noFlags) (parseAs [] noFlags)) Map.empty []
       emptyWorld =
     (\<lparr>fs = [(''depot'', Dir)],
       trace = [Stdout ''Initializing new CA'', Stdout ''Generating new key and cert'',
                Sys (OpMkdirAll ''depot''), Sys (OpOpenExcl ''depot/ca.key''),
                Ext (CallGenerateKey 4096), Ext CallEncryptPEMBlock, Ext CallPemEncode,
                Sys (OpWrite ''depot/ca.key'' ''BEGIN RSA PRIVATE KEY DER KEY''),
                Sys (OpRemove ''depot/ca.key''),
                StdoutErr (ErrOther ''no space left on device'')]\<rparr>,
      Ret 1)"
  by (simp add: ca_defs flag_defs store_defs example_defs keySizeFlags_def keySizeParser_def
      encryptFailPlatform_def diskFullPlatform_def)

text \<open>
  Claim C4. Once \<^verbatim>\<open>caMain\<close> has its flags (the two integer defaults read, the command
  line parsed), it runs exactly one strategy, the one the specification's priority picks
  from the four inputs: the run adds exactly one banner to the trace, that strategy's,
  and the run is that branch with the flags' values, so the generate branch gets the
  configured or default key size, validity and subject. With only one member of a pair
  given, \<open>spec_strategy\<close> falls through to the next.
\<close>

theorem C4_exactly_one_strategy_by_priority:
  assumes "envInt env ''SCEP_CA_YEARS'' 10 w = (w, Ret defYears)"
      and "envInt env ''SCEP_CA_KEYSIZE'' 4096 w = (w, Ret defKeySize)"
      and "parseCA P args = Inr cl"
  shows "strategies_started (trace (fst (caMain P env args w))) =
           strategies_started (trace w) @
             [spec_strategy (ca_flInlineCert cl env) (ca_flInlineKey cl env)
                (ca_flPathCert cl env) (ca_flPathKey cl env)]
       \<and> caMain P env args w =
           map_prod id Ret
             (case spec_strategy (ca_flInlineCert cl env) (ca_flInlineKey cl env)
                     (ca_flPathCert cl env) (ca_flPathKey cl env) of
                Inline \<Rightarrow>
                  caMain_inline P (ca_flDepotPath cl env) (ca_flInlineCert cl env)
                    (ca_flInlineKey cl env)
                    (emit (Stdout (if ca_flInit cl env then ''Initializing new CA via main CLI''
                                   else ''Initializing new CA'')) w)
              | PathCopy \<Rightarrow>
                  caMain_pathCopy P (ca_flDepotPath cl env) (ca_flPathCert cl env)
                    (ca_flPathKey cl env)
                    (emit (Stdout (if ca_flInit cl env then ''Initializing new CA via main CLI''
                                   else ''Initializing new CA'')) w)
              | Generate \<Rightarrow>
                  caMain_generate P (ca_flDepotPath cl env) (ca_flKeySize cl defKeySize)
                    (ca_flPassword cl env) (ca_flYears cl defYears) (ca_flCommonName cl env)
                    (ca_flOrg cl env) (ca_flOrgUnit cl env) (ca_flCountry cl env)
                    (emit (Stdout (if ca_flInit cl env then ''Initializing new CA via main CLI''
                                   else ''Initializing new CA'')) w))"
proof -
  define w0 where
    "w0 = emit (Stdout (if ca_flInit cl env then ''Initializing new CA via main CLI''
                        else ''Initializing new CA'')) w"
  have w0: "strategies_started (trace w0) = strategies_started (trace w)"
    unfolding w0_def by (simp only: started_emit started_init append_Nil2)
  have run: "caMain P env args w =
      map_prod id Ret
        (if ca_flInlineCert cl env \<noteq> [] \<and> ca_flInlineKey cl env \<noteq> [] then
           caMain_inline P (ca_flDepotPath cl env) (ca_flInlineCert cl env)
             (ca_flInlineKey cl env) w0
         else if ca_flPathCert cl env \<noteq> [] \<and> ca_flPathKey cl env \<noteq> [] then
           caMain_pathCopy P (ca_flDepotPath cl env) (ca_flPathCert cl env)
             (ca_flPathKey cl env) w0
         else
           caMain_generate P (ca_flDepotPath cl env) (ca_flKeySize cl defKeySize)
             (ca_flPassword cl env) (ca_flYears cl defYears) (ca_flCommonName cl env)
             (ca_flOrg cl env) (ca_flOrgUnit cl env) (ca_flCountry cl env) w0)"
    using assms unfolding caMain_def w0_def by (simp add: Let_def split_beta map_prod_def)
  have banner: "strategies_started (trace (fst (caMain P env args w))) =
           strategies_started (trace w) @
             [spec_strategy (ca_flInlineCert cl env) (ca_flInlineKey cl env)
                (ca_flPathCert cl env) (ca_flPathKey cl env)]"
    unfolding run spec_strategy_def
    by (simp add: started_caMain_inline started_caMain_pathCopy started_caMain_generate w0)
  have branch: "caMain P env args w =
           map_prod id Ret
             (case spec_strategy (ca_flInlineCert cl env) (ca_flInlineKey cl env)
                     (ca_flPathCert cl env) (ca_flPathKey cl env) of
                Inline \<Rightarrow>
                  caMain_inline P (ca_flDepotPath cl env) (ca_flInlineCert cl env)
                    (ca_flInlineKey cl env) w0
              | PathCopy \<Rightarrow>
                  caMain_pathCopy P (ca_flDepotPath cl env) (ca_flPathCert cl env)
                    (ca_flPathKey cl env) w0
              | Generate \<Rightarrow>
                  caMain_generate P (ca_flDepotPath cl env) (ca_flKeySize cl defKeySize)
                    (ca_flPassword cl env) (ca_flYears cl defYears) (ca_flCommonName cl env)
                    (ca_flOrg cl env) (ca_flOrgUnit cl env) (ca_flCountry cl env) w0)"
    unfolding run spec_strategy_def by simp
  show ?thesis using banner branch unfolding w0_def by blast
qed

text \<open>
  With only the inline certificate given (no inline key, no paths), the generate strategy
  runs, alone, with the default key size.
\<close>

theorem C4_witness:
  "envInt halfInlineEnv ''SCEP_CA_YEARS'' 10 emptyWorld = (emptyWorld, Ret 10)
   \<and> envInt halfInlineEnv ''SCEP_CA_KEYSIZE'' 4096 emptyWorld = (emptyWorld, Ret 4096)
   \<and> parseCA (testPlatform (parseAs [] noFlags) (parseAs [] noFlags)) [] = Inr noFlags
   \<and> ca_flInlineCert noFlags halfInlineEnv = ''CERT''
   \<and> ca_flInlineKey noFlags halfInlineEnv = []
   \<and> strategies_started
        (trace (fst (caMain (testPlatform (parseAs [] noFlags) (parseAs [] noFlags))
                       halfInlineEnv [] emptyWorld))) = [Generate]
   \<and> Ext (CallGenerateKey 4096) \<in>
        set (trace (fst (caMain (testPlatform (parseAs [] noFlags) (parseAs [] noFlags))
                           halfInlineEnv [] emptyWorld)))"
proof -
  let ?P = "testPlatform (parseAs [] noFlags) (parseAs [] noFlags)"
  have h1: "envInt halfInlineEnv ''SCEP_CA_YEARS'' 10 emptyWorld = (emptyWorld, Ret 10)"
    by (simp add: flag_defs example_defs halfInlineEnv_def)
  have h2: "envInt halfInlineEnv ''SCEP_CA_KEYSIZE'' 4096 emptyWorld = (emptyWorld, Ret 4096)"
    by (simp add: flag_defs example_defs halfInlineEnv_def)
  have h3: "parseCA ?P [] = Inr noFlags"
    by (simp add: testPlatform_def parseAs_def)
  have ic: "ca_flInlineCert noFlags halfInlineEnv = ''CERT''"
    by (simp add: flag_defs example_defs halfInlineEnv_def)
  have ik: "ca_flInlineKey noFlags halfInlineEnv = []"
    by (simp add: flag_defs example_defs halfInlineEnv_def)
  have sel: "spec_strategy (ca_flInlineCert noFlags halfInlineEnv) (ca_flInlineKey noFlags halfInlineEnv)
               (ca_flPathCert noFlags halfInlineEnv) (ca_flPathKey noFlags halfInlineEnv) = Generate"
    by (simp add: spec_strategy_def flag_defs example_defs halfInlineEnv_def)
  have none: "strategies_started (trace emptyWorld) = []"
    by (simp add: strategies_started_def emptyWorld_def)
  have "strategies_started (trace (fst (caMain ?P halfInlineEnv [] emptyWorld))) =
          strategies_started (trace emptyWorld) @
            [spec_strategy (ca_flInlineCert noFlags halfInlineEnv) (ca_flInlineKey noFlags halfInlineEnv)
               (ca_flPathCert noFlags halfInlineEnv) (ca_flPathKey noFlags halfInlineEnv)]"
    using C4_exactly_one_strategy_by_priority [OF h1 h2 h3] by blast
  then have b: "strategies_started (trace (fst (caMain ?P halfInlineEnv [] emptyWorld))) = [Generate]"
    unfolding sel none by simp
  have g: "Ext (CallGenerateKey 4096) \<in> set (trace (fst (caMain ?P halfInlineEnv [] emptyWorld)))"
    by (simp add: ca_defs flag_defs store_defs example_defs halfInlineEnv_def)
  show ?thesis using h1 h2 h3 ic ik b g by simp
qed

text \<open>
  Claim C7. On a depot that already holds \<^verbatim>\<open>ca.key\<close> and \<^verbatim>\<open>ca.pem\<close>, the generate
  strategy returns status 1 on the already-exists error of the exclusive create of
  \<^verbatim>\<open>ca.key\<close>, which is what \<^verbatim>\<open>createKey\<close> returns; the file store is unchanged as a
  whole, so both files keep their bytes; and the trace shows the banner, the two
  file-system calls and the error, and neither a key generation nor a write.
\<close>

theorem C7_generate_on_existing_ca_changes_nothing:
  assumes "depot \<noteq> []"
      and "map_of (fs w) depot = Some Dir"
      and "map_of (fs w) (filepath_Join depot ''ca.key'') = Some (File k)"
      and "map_of (fs w) (filepath_Join depot ''ca.pem'') = Some (File c)"
  shows "\<exists>w'. caMain_generate P depot bits pw years cn org ou country w = (w', 1)
          \<and> fs w' = fs w
          \<and> map_of (fs w') (filepath_Join depot ''ca.key'') = Some (File k)
          \<and> map_of (fs w') (filepath_Join depot ''ca.pem'') = Some (File c)
          \<and> trace w' = trace w @
               [Stdout generateBanner, Sys (OpMkdirAll depot),
                Sys (OpOpenExcl (filepath_Join depot ''ca.key'')),
                StdoutErr (ErrExist (filepath_Join depot ''ca.key''))]
          \<and> snd (createKey P bits pw depot w) = Inl (ErrExist (filepath_Join depot ''ca.key''))"
  using assms
  by (simp add: caMain_generate_def createKey_def os_MkdirAll_def os_OpenFile_excl_def
      emit_def Let_def)

text \<open>
  A first run of \<^verbatim>\<open>caMain\<close> on an empty store generates the CA; the generate strategy
  run again on the store it left is refused and leaves the store as it was.
\<close>

theorem C7_witness:
  "fs (fst (caMain (testPlatform (parseAs [] noFlags) (parseAs [] noFlags)) Map.empty []
              emptyWorld)) =
     [(''depot/ca.pem'', File ''BEGIN CERTIFICATE CERT MICROMDM SCEP CA''),
      (''depot/ca.key'', File ''BEGIN RSA PRIVATE KEY DER KEY''), (''depot'', Dir)]
   \<and> snd (caMain_generate (testPlatform (parseAs [] noFlags) (parseAs [] noFlags)) ''depot''
            4096 [] 10 ''MICROMDM SCEP CA'' ''scep-ca'' ''SCEP CA'' ''US''
            (fst (caMain (testPlatform (parseAs [] noFlags) (parseAs [] noFlags)) Map.empty []
                    emptyWorld))) = 1
   \<and> fs (fst (caMain_generate (testPlatform (parseAs [] noFlags) (parseAs [] noFlags)) ''depot''
            4096 [] 10 ''MICROMDM SCEP CA'' ''scep-ca'' ''SCEP CA'' ''US''
            (fst (caMain (testPlatform (parseAs [] noFlags) (parseAs [] noFlags)) Map.empty []
                    emptyWorld)))) =
     [(''depot/ca.pem'', File ''BEGIN CERTIFICATE CERT MICROMDM SCEP CA''),
      (''depot/ca.key'', File ''BEGIN RSA PRIVATE KEY DER KEY''), (''depot'', Dir)]"
proof -
  let ?P = "testPlatform (parseAs [] noFlags) (parseAs [] noFlags)"
  let ?w = "fst (caMain ?P Map.empty [] emptyWorld)"
  have first: "fs ?w =
     [(''depot/ca.pem'', File ''BEGIN CERTIFICATE CERT MICROMDM SCEP CA''),
      (''depot/ca.key'', File ''BEGIN RSA PRIVATE KEY DER KEY''), (''depot'', Dir)]"
    by (simp add: ca_defs flag_defs store_defs example_defs)
  have h1: "''depot'' \<noteq> []" by simp
  have h2: "map_of (fs ?w) ''depot'' = Some Dir"
    unfolding first by simp
  have h3: "map_of (fs ?w) (filepath_Join ''depot'' ''ca.key'') =
              Some (File ''BEGIN RSA PRIVATE KEY DER KEY'')"
    unfolding first by (simp add: filepath_Join_def)
  have h4: "map_of (fs ?w) (filepath_Join ''depot'' ''ca.pem'') =
              Some (File ''BEGIN CERTIFICATE CERT MICROMDM SCEP CA'')"
    unfolding first by (simp add: filepath_Join_def)
  from C7_generate_on_existing_ca_changes_nothing [OF h1 h2 h3 h4,
      of ?P 4096 "[]" 10 "''MICROMDM SCEP CA''" "''scep-ca''" "''SCEP CA''" "''US''"]
  obtain w' where
    "caMain_generate ?P ''depot'' 4096 [] 10 ''MICROMDM SCEP CA'' ''scep-ca'' ''SCEP CA'' ''US'' ?w
       = (w', 1)"
    and "fs w' = fs ?w"
    by blast
  then show ?thesis using first by simp
qed

section \<open>The listen address\<close>

text \<open>
  Claim C6, as amended. When the process is not started as the \<^verbatim>\<open>ca\<close> subcommand, its
  command line parses and \<^verbatim>\<open>-version\<close> is not set, then for every configuration in
  which both the listen address and the listen port are user-set, \<^verbatim>\<open>main\<close> exits with
  status 1, and the world it leaves is the one it started in with one more line on
  standard error: the file store is untouched, no call into the file system or into
  the depot was made, and no launch was reached.
\<close>

theorem C6_address_conflict_exits_before_depot:
  assumes "\<not> (args \<noteq> [] \<and> hd args = ''ca'')"
      and "parseMain P args = Inr cl"
      and "\<not> flVersion cl env"
      and "setByUser cl env ''http-addr'' ''SCEP_HTTP_ADDR''"
      and "setByUser cl env ''port'' ''SCEP_HTTP_LISTEN_PORT''"
  shows "main P env args w = (emit (Stderr ''cannot set both -http-addr and -port'') w, Exit 1)"
  using assms by (auto simp: main_def main_httpAddr_def)

text \<open>Both settings given as flags, on a depot that holds a CA.\<close>

theorem C6_witness:
  "\<not> ([''-http-addr'', '':9001'', ''-port'', ''9002''] \<noteq> []
       \<and> hd [''-http-addr'', '':9001'', ''-port'', ''9002''] = ''ca'')
   \<and> parseMain (testPlatform (parseAs [''-http-addr'', '':9001'', ''-port'', ''9002''] bothAddrFlags)
                  (parseAs [] noFlags))
        [''-http-addr'', '':9001'', ''-port'', ''9002''] = Inr bothAddrFlags
   \<and> \<not> flVersion bothAddrFlags Map.empty
   \<and> setByUser bothAddrFlags Map.empty ''http-addr'' ''SCEP_HTTP_ADDR''
   \<and> setByUser bothAddrFlags Map.empty ''port'' ''SCEP_HTTP_LISTEN_PORT''
   \<and> main (testPlatform (parseAs [''-http-addr'', '':9001'', ''-port'', ''9002''] bothAddrFlags)
             (parseAs [] noFlags))
        Map.empty [''-http-addr'', '':9001'', ''-port'', ''9002''] depotWorld =
      (\<lparr>fs = fs depotWorld, trace = [Stderr ''cannot set both -http-addr and -port'']\<rparr>, Exit 1)"
proof -
  let ?args = "[''-http-addr'', '':9001'', ''-port'', ''9002'']"
  let ?P = "testPlatform (parseAs ?args bothAddrFlags) (parseAs [] noFlags)"
  have h1: "\<not> (?args \<noteq> [] \<and> hd ?args = ''ca'')" by simp
  have h2: "parseMain ?P ?args = Inr bothAddrFlags"
    by (simp add: testPlatform_def parseAs_def)
  have h3: "\<not> flVersion bothAddrFlags Map.empty"
    by (simp add: flag_defs example_defs bothAddrFlags_def)
  have h4: "setByUser bothAddrFlags Map.empty ''http-addr'' ''SCEP_HTTP_ADDR''"
    by (simp add: flag_defs example_defs bothAddrFlags_def)
  have h5: "setByUser bothAddrFlags Map.empty ''port'' ''SCEP_HTTP_LISTEN_PORT''"
    by (simp add: flag_defs example_defs bothAddrFlags_def)
  have "main ?P Map.empty ?args depotWorld =
      (emit (Stderr ''cannot set both -http-addr and -port'') depotWorld, Exit 1)"
    by (rule C6_address_conflict_exits_before_depot [OF h1 h2 h3 h4 h5])
  then have "main ?P Map.empty ?args depotWorld =
      (\<lparr>fs = fs depotWorld, trace = [Stderr ''cannot set both -http-addr and -port'']\<rparr>, Exit 1)"
    by (simp add: emit_def depotWorld_def)
  then show ?thesis using h1 h2 h3 h4 h5 by simp
qed

text \<open>
  Claim C6 as stated fails: with both settings user-set in the environment, the process
  started with \<^verbatim>\<open>-version\<close> prints the version and exits with status 0, and the process
  started as \<^verbatim>\<open>ca\<close> with inline material writes the CA into the depot and exits with
  status 0.
\<close>

theorem C6_counterexample:
  "setByUser versionFlags bothAddrEnv ''http-addr'' ''SCEP_HTTP_ADDR''
   \<and> setByUser versionFlags bothAddrEnv ''port'' ''SCEP_HTTP_LISTEN_PORT''
   \<and> main (testPlatform (parseAs [''-version''] versionFlags) (parseAs [] noFlags)) bothAddrEnv
        [''-version''] emptyWorld =
      (\<lparr>fs = [], trace = [Stdout ''unknown'']\<rparr>, Exit 0)
   \<and> setByUser noFlags bothAddrInlineEnv ''http-addr'' ''SCEP_HTTP_ADDR''
   \<and> setByUser noFlags bothAddrInlineEnv ''port'' ''SCEP_HTTP_LISTEN_PORT''
   \<and> main (testPlatform (parseAs [] noFlags) (parseAs [] noFlags)) bothAddrInlineEnv
        [''ca''] emptyWorld =
      (\<lparr>fs = [(''depot/ca.key'', File ''KEY''), (''depot/ca.pem'', File ''CERT''), (''depot'', Dir)],
        trace = [Stdout ''Initializing new CA'',
                 Stdout ''Storing ENV-provided cert and key to the depot'',
                 Sys (OpMkdirAll ''depot''), Sys (OpOpenExcl ''depot/ca.pem''),
                 Sys (OpWrite ''depot/ca.pem'' ''CERT''),
                 Sys (OpMkdirAll ''depot''), Sys (OpOpenExcl ''depot/ca.key''),
                 Sys (OpWrite ''depot/ca.key'' ''KEY'')]\<rparr>,
       Exit 0)"
  by (simp add: main_def ca_defs flag_defs store_defs example_defs versionFlags_def
      bothAddrEnv_def bothAddrInlineEnv_def version_def)

text \<open>
  Claim C8. For every configuration in which neither the listen address nor the listen
  port is user-set, by flag or by environment variable, the address resolution of lines
  81-91 yields \<^verbatim>\<open>:8080\<close>, and that is the address of every launch \<^verbatim>\<open>main\<close> reaches with
  these flags.
\<close>

theorem C8_default_listen_address:
  assumes "\<not> setByUser cl env ''http-addr'' ''SCEP_HTTP_ADDR''"
      and "\<not> setByUser cl env ''port'' ''SCEP_HTTP_LISTEN_PORT''"
  shows "main_httpAddr cl env w = (w, Ret '':8080'')
       \<and> (\<forall>P args w' l. parseMain P args = Inr cl \<longrightarrow> main P env args w = (w', Ret l) \<longrightarrow>
             l_httpAddr l = '':8080'')"
proof -
  have a: "main_httpAddr cl env w = (w, Ret '':8080'')"
    using assms
    by (auto simp: main_httpAddr_def setByUser_def userDefinedFlags_def LookupEnv_def flPort_def
        flag_String_def envString_def Getenv_def Let_def split: option.splits)
  have "l_httpAddr l = '':8080''"
    if "parseMain P args = Inr cl" "main P env args w = (w', Ret l)" for P args w' l
    using that a
    by (auto simp: main_def Let_def split: if_splits prod.splits ctl.splits dest: main_serve_addr)
  with a show ?thesis by blast
qed

text \<open>No flag and no environment variable, on a depot that holds a CA.\<close>

theorem C8_witness:
  "\<not> setByUser noFlags Map.empty ''http-addr'' ''SCEP_HTTP_ADDR''
   \<and> \<not> setByUser noFlags Map.empty ''port'' ''SCEP_HTTP_LISTEN_PORT''
   \<and> main_httpAddr noFlags Map.empty depotWorld = (depotWorld, Ret '':8080'')
   \<and> snd (main (testPlatform (parseAs [] noFlags) (parseAs [] noFlags)) Map.empty [] depotWorld) =
       Ret \<lparr>l_lambda = False, l_httpAddr = '':8080'',
            l_svc = \<lparr>svc_cert = ''OLD CERT'', svc_key = ''OLD KEY'',
                     svc_signer = NewSigner (FileDepot ''depot'')
                       [WithAllowRenewalDays 14, WithValidityDays 365, WithCAPass []]\<rparr>\<rparr>"
proof -
  have h1: "\<not> setByUser noFlags Map.empty ''http-addr'' ''SCEP_HTTP_ADDR''"
    by (simp add: flag_defs example_defs)
  have h2: "\<not> setByUser noFlags Map.empty ''port'' ''SCEP_HTTP_LISTEN_PORT''"
    by (simp add: flag_defs example_defs)
  have a: "main_httpAddr noFlags Map.empty depotWorld = (depotWorld, Ret '':8080'')"
    using C8_default_listen_address [OF h1 h2, of depotWorld] by simp
  have run: "snd (main (testPlatform (parseAs [] noFlags) (parseAs [] noFlags)) Map.empty []
                    depotWorld) =
       Ret \<lparr>l_lambda = False, l_httpAddr = '':8080'',
            l_svc = \<lparr>svc_cert = ''OLD CERT'', svc_key = ''OLD KEY'',
                     svc_signer = NewSigner (FileDepot ''depot'')
                       [WithAllowRenewalDays 14, WithValidityDays 365, WithCAPass []]\<rparr>\<rparr>"
    by (simp add: main_defs flag_defs store_defs example_defs)
  show ?thesis using h1 h2 a run by simp
qed

text \<open>
  Claim C9. When \<^verbatim>\<open>SCEP_HTTP_ADDR\<close> is present and empty, \<^verbatim>\<open>setByUser\<close> counts the
  listen address as set (it asks whether the variable exists), while \<^verbatim>\<open>envString\<close>
  returns its default for it, so that \<^verbatim>\<open>-http-addr\<close> is empty unless the command line
  gives it; and if the port is user-set as well, the conflict check of lines 81-91 exits
  with status 1, which is the exit of \<^verbatim>\<open>main\<close> whenever start-up gets to the check (no
  \<^verbatim>\<open>ca\<close> subcommand, a command line that parses, no \<^verbatim>\<open>-version\<close>).
\<close>

theorem C9_empty_env_address_counts_as_set:
  assumes "env ''SCEP_HTTP_ADDR'' = Some []"
  shows "setByUser cl env ''http-addr'' ''SCEP_HTTP_ADDR''
       \<and> envString env ''SCEP_HTTP_ADDR'' dflt = dflt
       \<and> (sflag cl ''http-addr'' = None \<longrightarrow> flHTTPAddr cl env = [])
       \<and> (setByUser cl env ''port'' ''SCEP_HTTP_LISTEN_PORT'' \<longrightarrow>
            main_httpAddr cl env w =
              (emit (Stderr ''cannot set both -http-addr and -port'') w, Exit 1)
            \<and> (\<forall>P args. \<not> (args \<noteq> [] \<and> hd args = ''ca'') \<longrightarrow> parseMain P args = Inr cl \<longrightarrow>
                   \<not> flVersion cl env \<longrightarrow>
                   main P env args w =
                     (emit (Stderr ''cannot set both -http-addr and -port'') w, Exit 1)))"
proof -
  have a: "setByUser cl env ''http-addr'' ''SCEP_HTTP_ADDR''"
    using assms by (simp add: setByUser_def LookupEnv_def)
  have b: "envString env ''SCEP_HTTP_ADDR'' dflt = dflt"
    using assms by (simp add: envString_def Getenv_def)
  have c: "flHTTPAddr cl env = []" if "sflag cl ''http-addr'' = None"
    using that assms by (simp add: flHTTPAddr_def flag_String_def envString_def Getenv_def)
  have d: "main_httpAddr cl env w =
             (emit (Stderr ''cannot set both -http-addr and -port'') w, Exit 1)"
    if "setByUser cl env ''port'' ''SCEP_HTTP_LISTEN_PORT''"
    using that a by (simp add: main_httpAddr_def)
  have e: "main P env args w = (emit (Stderr ''cannot set both -http-addr and -port'') w, Exit 1)"
    if "setByUser cl env ''port'' ''SCEP_HTTP_LISTEN_PORT''"
       "\<not> (args \<noteq> [] \<and> hd args = ''ca'')" "parseMain P args = Inr cl" "\<not> flVersion cl env"
    for P args
    using that d by (auto simp: main_def)
  show ?thesis using a b c d e by blast
qed

text \<open>
  \<^verbatim>\<open>SCEP_HTTP_ADDR\<close> set to the empty string and \<^verbatim>\<open>-port 9002\<close> on the command line: the
  address flag is empty, and the server exits on the conflict.
\<close>

theorem C9_witness:
  "emptyAddrEnv ''SCEP_HTTP_ADDR'' = Some []
   \<and> sflag portFlags ''http-addr'' = None
   \<and> setByUser portFlags emptyAddrEnv ''port'' ''SCEP_HTTP_LISTEN_PORT''
   \<and> setByUser portFlags emptyAddrEnv ''http-addr'' ''SCEP_HTTP_ADDR''
   \<and> flHTTPAddr portFlags emptyAddrEnv = []
   \<and> main (testPlatform (parseAs [''-port'', ''9002''] portFlags) (parseAs [] noFlags))
        emptyAddrEnv [''-port'', ''9002''] depotWorld =
      (\<lparr>fs = fs depotWorld, trace = [Stderr ''cannot set both -http-addr and -port'']\<rparr>, Exit 1)"
proof -
  let ?args = "[''-port'', ''9002'']"
  let ?P = "testPlatform (parseAs ?args portFlags) (parseAs [] noFlags)"
  have h: "emptyAddrEnv ''SCEP_HTTP_ADDR'' = Some []"
    by (simp add: emptyAddrEnv_def)
  have nf: "sflag portFlags ''http-addr'' = None"
    by (simp add: portFlags_def noFlags_def)
  have ps: "setByUser portFlags emptyAddrEnv ''port'' ''SCEP_HTTP_LISTEN_PORT''"
    by (simp add: flag_defs example_defs portFlags_def emptyAddrEnv_def)
  have r1: "\<not> (?args \<noteq> [] \<and> hd ?args = ''ca'')" by simp
  have r2: "parseMain ?P ?args = Inr portFlags"
    by (simp add: testPlatform_def parseAs_def)
  have r3: "\<not> flVersion portFlags emptyAddrEnv"
    by (simp add: flag_defs example_defs portFlags_def emptyAddrEnv_def)
  note c9 = C9_empty_env_address_counts_as_set
    [where env = emptyAddrEnv and cl = portFlags and dflt = "[]" and w = depotWorld, OF h]
  have a: "setByUser portFlags emptyAddrEnv ''http-addr'' ''SCEP_HTTP_ADDR''"
    using c9 by blast
  have b: "flHTTPAddr portFlags emptyAddrEnv = []"
    using c9 nf by blast
  have "main ?P emptyAddrEnv ?args depotWorld =
      (emit (Stderr ''cannot set both -http-addr and -port'') depotWorld, Exit 1)"
    using c9 ps r1 r2 r3 by blast
  then have m: "main ?P emptyAddrEnv ?args depotWorld =
      (\<lparr>fs = fs depotWorld, trace = [Stderr ''cannot set both -http-addr and -port'']\<rparr>, Exit 1)"
    by (simp add: emit_def depotWorld_def)
  show ?thesis using h nf ps a b m by simp
qed

section \<open>The debug wipe of the depot\<close>

text \<open>
  Claim C10. Let start-up get to the debug block (no \<^verbatim>\<open>ca\<close> subcommand, a command line
  that parses, no \<^verbatim>\<open>-version\<close>, no address conflict) with \<^verbatim>\<open>-delete-ca\<close> set and a
  depot path that is not empty. Then \<^verbatim>\<open>os.RemoveAll\<close> runs on the depot path, and
  whatever it returns, \<^verbatim>\<open>main\<close> goes on with the rest of start-up, whose first step is to
  open the depot. If the removal succeeds, the store that the depot is opened on has no
  entry at or under the depot path, so \<^verbatim>\<open>ca.key\<close> and \<^verbatim>\<open>ca.pem\<close> are gone whatever they
  held (no exclusive create stands in the way of a removal). If the removal fails, the
  store has lost only entries of the depot tree, those the removal got to, every other
  entry is as before, and the only other effect is one more line in the log.
\<close>

theorem C10_delete_ca_wipes_depot_before_open:
  assumes "\<not> (args \<noteq> [] \<and> hd args = ''ca'')"
      and "parseMain P args = Inr cl"
      and "\<not> flVersion cl env"
      and "main_httpAddr cl env w = (w, Ret httpAddr)"
      and "flDeleteCA cl env"
      and "flDepotPath cl env \<noteq> []"
  shows "let d = flDepotPath cl env;
             w1 = main_listFiles P cl env (main_logFlags cl env w);
             w2 = main_deleteCA P cl env w1
         in main P env args w = main_serve P env args cl httpAddr w2
          \<and> (case io_fault P (OpRemoveAll d) of
                None \<Rightarrow>
                  w2 = \<lparr>fs = fs_del_tree d (fs w1), trace = trace w1 @ [Sys (OpRemoveAll d)]\<rparr>
                  \<and> (\<forall>p. within d p \<longrightarrow> map_of (fs w2) p = None)
                  \<and> map_of (fs w2) (filepath_Join d ''ca.key'') = None
                  \<and> map_of (fs w2) (filepath_Join d ''ca.pem'') = None
              | Some e \<Rightarrow>
                  w2 = \<lparr>fs = fs_del_some (undeletable P) d (fs w1),
                        trace = trace w1 @
                          [Sys (OpRemoveAll d),
                           Log [(''err'', LErr e), (''msg'', LStr ''attempted to remove index.txt'')]]\<rparr>
                  \<and> (\<forall>p. \<not> within d p \<longrightarrow> map_of (fs w2) p = map_of (fs w1) p))
          \<and> (\<exists>tr. trace (fst (main P env args w)) = trace w2 @ Ext (CallNewFileDepot d) # tr)"
proof -
  define d where "d = flDepotPath cl env"
  define w1 where "w1 = main_listFiles P cl env (main_logFlags cl env w)"
  define w2 where "w2 = main_deleteCA P cl env w1"
  have run: "main P env args w = main_serve P env args cl httpAddr w2"
    using assms(1-4) unfolding w2_def w1_def by (auto simp: main_def Let_def)
  have wipe: "w2 = \<lparr>fs = fs_del_tree d (fs w1), trace = trace w1 @ [Sys (OpRemoveAll d)]\<rparr>"
    if "io_fault P (OpRemoveAll d) = None"
    using that assms(5,6) unfolding w2_def d_def
    by (simp add: main_deleteCA_def os_RemoveAll_def emit_def Let_def)
  have fail: "w2 = \<lparr>fs = fs_del_some (undeletable P) d (fs w1),
                    trace = trace w1 @
                      [Sys (OpRemoveAll d),
                       Log [(''err'', LErr e), (''msg'', LStr ''attempted to remove index.txt'')]]\<rparr>"
    if "io_fault P (OpRemoveAll d) = Some e" for e
    using that assms(5,6) unfolding w2_def d_def
    by (simp add: main_deleteCA_def os_RemoveAll_def emit_def Let_def)
  have gone: "map_of (fs w2) p = None" if "io_fault P (OpRemoveAll d) = None" "within d p" for p
    using wipe [OF that(1)] that(2) by (simp add: map_of_fs_del_tree)
  have dne: "d \<noteq> []" using assms(6) by (simp add: d_def)
  have next_open: "\<exists>tr. trace (fst (main P env args w)) = trace w2 @ Ext (CallNewFileDepot d) # tr"
    unfolding run d_def by (rule ext_main_serve)
  have mid: "(case io_fault P (OpRemoveAll d) of
                None \<Rightarrow>
                  w2 = \<lparr>fs = fs_del_tree d (fs w1), trace = trace w1 @ [Sys (OpRemoveAll d)]\<rparr>
                  \<and> (\<forall>p. within d p \<longrightarrow> map_of (fs w2) p = None)
                  \<and> map_of (fs w2) (filepath_Join d ''ca.key'') = None
                  \<and> map_of (fs w2) (filepath_Join d ''ca.pem'') = None
              | Some e \<Rightarrow>
                  w2 = \<lparr>fs = fs_del_some (undeletable P) d (fs w1),
                        trace = trace w1 @
                          [Sys (OpRemoveAll d),
                           Log [(''err'', LErr e), (''msg'', LStr ''attempted to remove index.txt'')]]\<rparr>
                  \<and> (\<forall>p. \<not> within d p \<longrightarrow> map_of (fs w2) p = map_of (fs w1) p))"
  proof (cases "io_fault P (OpRemoveAll d)")
    case None
    then show ?thesis using wipe gone within_Join [OF dne] by simp
  next
    case (Some e)
    have "map_of (fs w2) p = map_of (fs w1) p" if "\<not> within d p" for p
      using fail [OF Some] that by (simp add: map_of_fs_del_some)
    then show ?thesis using Some fail by simp
  qed
  show ?thesis
    using run mid next_open
    unfolding Let_def d_def [symmetric] w1_def [symmetric] w2_def [symmetric]
    by blast
qed

text \<open>
  \<^verbatim>\<open>-delete-ca\<close> on a depot that holds a CA. Where the removal succeeds, the two files
  are gone when the depot is opened, and the opening fails on the missing directory.
  Where the operating system refuses the removal, the refusal is logged, the depot is
  opened with the files as they were, and start-up reaches the launch.
\<close>

theorem C10_witness:
  "parseMain (testPlatform (parseAs [''-delete-ca''] deleteFlags) (parseAs [] noFlags))
      [''-delete-ca''] = Inr deleteFlags
   \<and> \<not> flVersion deleteFlags Map.empty
   \<and> main_httpAddr deleteFlags Map.empty depotWorld = (depotWorld, Ret '':8080'')
   \<and> flDeleteCA deleteFlags Map.empty
   \<and> flDepotPath deleteFlags Map.empty = ''depot''
   \<and> map_of (fs depotWorld) ''depot/ca.key'' = Some (File ''OLD KEY'')
   \<and> map_of (fs (main_deleteCA (testPlatform (parseAs [''-delete-ca''] deleteFlags) (parseAs [] noFlags))
                    deleteFlags Map.empty
                    (main_listFiles (testPlatform (parseAs [''-delete-ca''] deleteFlags) (parseAs [] noFlags))
                       deleteFlags Map.empty (main_logFlags deleteFlags Map.empty depotWorld))))
        ''depot/ca.key'' = None
   \<and> snd (main (testPlatform (parseAs [''-delete-ca''] deleteFlags) (parseAs [] noFlags)) Map.empty
            [''-delete-ca''] depotWorld) = Exit 1
   \<and> fs (fst (main (readOnlyPlatform (parseAs [''-delete-ca''] deleteFlags) (parseAs [] noFlags))
                 Map.empty [''-delete-ca''] depotWorld)) = fs depotWorld
   \<and> snd (main (readOnlyPlatform (parseAs [''-delete-ca''] deleteFlags) (parseAs [] noFlags))
            Map.empty [''-delete-ca''] depotWorld) =
       Ret \<lparr>l_lambda = False, l_httpAddr = '':8080'',
            l_svc = \<lparr>svc_cert = ''OLD CERT'', svc_key = ''OLD KEY'',
                     svc_signer = NewSigner (FileDepot ''depot'')
                       [WithAllowRenewalDays 14, WithValidityDays 365, WithCAPass []]\<rparr>\<rparr>"
proof -
  let ?args = "[''-delete-ca'']"
  let ?P = "testPlatform (parseAs ?args deleteFlags) (parseAs [] noFlags)"
  let ?Q = "readOnlyPlatform (parseAs ?args deleteFlags) (parseAs [] noFlags)"
  have h1: "\<not> (?args \<noteq> [] \<and> hd ?args = ''ca'')" by simp
  have h2: "parseMain ?P ?args = Inr deleteFlags"
    by (simp add: testPlatform_def parseAs_def)
  have h3: "\<not> flVersion deleteFlags Map.empty"
    by (simp add: flag_defs example_defs deleteFlags_def readOnlyPlatform_def)
  have h4: "main_httpAddr deleteFlags Map.empty depotWorld = (depotWorld, Ret '':8080'')"
    by (simp add: main_httpAddr_def flag_defs example_defs deleteFlags_def readOnlyPlatform_def)
  have h5: "flDeleteCA deleteFlags Map.empty"
    by (simp add: flag_defs example_defs deleteFlags_def readOnlyPlatform_def)
  have dp: "flDepotPath deleteFlags Map.empty = ''depot''"
    by (simp add: flag_defs example_defs deleteFlags_def readOnlyPlatform_def)
  have h6: "flDepotPath deleteFlags Map.empty \<noteq> []" using dp by simp
  have nofault: "io_fault ?P (OpRemoveAll ''depot'') = None"
    by (simp add: testPlatform_def)
  have before: "map_of (fs depotWorld) ''depot/ca.key'' = Some (File ''OLD KEY'')"
    by (simp add: depotWorld_def)
  have "map_of (fs (main_deleteCA ?P deleteFlags Map.empty
                  (main_listFiles ?P deleteFlags Map.empty
                     (main_logFlags deleteFlags Map.empty depotWorld))))
          (filepath_Join ''depot'' ''ca.key'') = None"
    using C10_delete_ca_wipes_depot_before_open [OF h1 h2 h3 h4 h5 h6]
    unfolding Let_def dp nofault option.case by blast
  then have gone: "map_of (fs (main_deleteCA ?P deleteFlags Map.empty
                  (main_listFiles ?P deleteFlags Map.empty
                     (main_logFlags deleteFlags Map.empty depotWorld)))) ''depot/ca.key'' = None"
    by (simp add: filepath_Join_def)
  have stop: "snd (main ?P Map.empty ?args depotWorld) = Exit 1"
    by (simp add: main_defs flag_defs store_defs example_defs deleteFlags_def readOnlyPlatform_def)
  have kept: "fs (fst (main ?Q Map.empty ?args depotWorld)) = fs depotWorld"
    by (simp add: main_defs flag_defs store_defs example_defs deleteFlags_def readOnlyPlatform_def)
  have launch: "snd (main ?Q Map.empty ?args depotWorld) =
       Ret \<lparr>l_lambda = False, l_httpAddr = '':8080'',
            l_svc = \<lparr>svc_cert = ''OLD CERT'', svc_key = ''OLD KEY'',
                     svc_signer = NewSigner (FileDepot ''depot'')
                       [WithAllowRenewalDays 14, WithValidityDays 365, WithCAPass []]\<rparr>\<rparr>"
    by (simp add: main_defs flag_defs store_defs example_defs deleteFlags_def readOnlyPlatform_def)
  show ?thesis using h2 h3 h4 h5 dp before gone stop kept launch by simp
qed

section \<open>The launch\<close>

text \<open>
  Claim C5, as amended. Under every schedule of the two goroutines, the launcher and the
  events from outside: when the listener's \<^verbatim>\<open>ListenAndServe\<close> has returned, and when the
  watcher has caught its signal, there is room in the channel, so neither send blocks,
  and the next turn of that goroutine sends its outcome; no more values are ever sent
  than the channel's capacity of 2; in serverless mode the mode goroutine sends nothing.
  The launcher's turn does nothing as long as nothing was sent; once something was sent
  its turn takes the first value sent out of the channel, whoever sent it; its next turn
  logs that value as \<^verbatim>\<open>terminated\<close> and returns; so two turns of the launcher after a
  first send end the run with the first value sent as the last line logged; and after
  the return nothing moves.
\<close>

theorem C5_listener_and_watcher_send_without_blocking:
  "let s = run_launch l ts in
     (\<forall>e. modeTask s = ListenReturned e \<longrightarrow> can_send s)
   \<and> (\<forall>x. watcher s = SignalCaught x \<longrightarrow> can_send s)
   \<and> (\<forall>e. alive s \<longrightarrow> modeTask s = ListenReturned e \<longrightarrow>
          sent (step l s RunMode) = sent s @ [(ModeTask, e)])
   \<and> (\<forall>x. alive s \<longrightarrow> watcher s = SignalCaught x \<longrightarrow>
          sent (step l s RunWatcher) = sent s @ [(SignalTask, ErrOther x)])
   \<and> length (sent s) \<le> errsCap
   \<and> (l_lambda l \<longrightarrow> ModeTask \<notin> fst ` set (sent s))
   \<and> (sent s = [] \<longrightarrow> launcher s = Blocked \<or> launcher s = Killed)
   \<and> (\<forall>v. launcher s = Received v \<longrightarrow> sent s \<noteq> [] \<and> snd (hd (sent s)) = v)
   \<and> (launcher s = Terminated \<longrightarrow>
          sent s \<noteq> [] \<and> logged s \<noteq> []
          \<and> last (logged s) = Log [(''terminated'', LErr (snd (hd (sent s))))])
   \<and> (launcher s = Blocked \<longrightarrow> sent s = [] \<longrightarrow> step l s RunLauncher = s)
   \<and> (launcher s = Blocked \<longrightarrow> sent s \<noteq> [] \<longrightarrow>
          errs s = map snd (sent s)
          \<and> step l s RunLauncher =
              s\<lparr>errs := tl (errs s), launcher := Received (snd (hd (sent s)))\<rparr>)
   \<and> (\<forall>v. launcher s = Received v \<longrightarrow>
          step l s RunLauncher =
            s\<lparr>launcher := Terminated,
              logged := logged s @ [Log [(''terminated'', LErr (snd (hd (sent s))))]]\<rparr>)
   \<and> (alive s \<longrightarrow> sent s \<noteq> [] \<longrightarrow>
          launcher (step l (step l s RunLauncher) RunLauncher) = Terminated
          \<and> logged (step l (step l s RunLauncher) RunLauncher) =
              logged s @ [Log [(''terminated'', LErr (snd (hd (sent s))))]])
   \<and> (launcher s = Terminated \<longrightarrow> (\<forall>t. step l s t = s))"
proof -
  define s where "s = run_launch l ts"
  have i: "launch_inv l s" unfolding s_def by (rule launch_inv_run)
  have a: "can_send s" if "modeTask s = ListenReturned e" for e
    using i that by (auto simp: launch_inv_def can_send_def errsCap_def split: if_splits)
  have b: "can_send s" if "watcher s = SignalCaught x" for x
    using i that by (auto simp: launch_inv_def can_send_def errsCap_def split: if_splits)
  have c: "sent (step l s RunMode) = sent s @ [(ModeTask, e)]"
    if "alive s" "modeTask s = ListenReturned e" for e
    using that a [OF that(2)] by (simp add: step_def run_mode_def do_send_def)
  have d: "sent (step l s RunWatcher) = sent s @ [(SignalTask, ErrOther x)]"
    if "alive s" "watcher s = SignalCaught x" for x
    using that b [OF that(2)] by (simp add: step_def run_watcher_def do_send_def)
  have e: "length (sent s) \<le> errsCap"
    using i by (auto simp: launch_inv_def errsCap_def split: if_splits)
  have f: "ModeTask \<notin> fst ` set (sent s)" if "l_lambda l"
    using i that by (simp add: launch_inv_def)
  have g: "launcher s = Blocked \<or> launcher s = Killed" if "sent s = []"
    using i that by (cases "launcher s") (simp_all add: launch_inv_def)
  have h: "sent s \<noteq> [] \<and> snd (hd (sent s)) = v" if "launcher s = Received v" for v
    using i that by (cases "sent s") (auto simp: launch_inv_def)
  have k: "sent s \<noteq> [] \<and> logged s \<noteq> []
          \<and> last (logged s) = Log [(''terminated'', LErr (snd (hd (sent s))))]"
    if "launcher s = Terminated"
    using i that by (simp add: launch_inv_def)
  have buf: "errs s = map snd (sent s)" if "launcher s = Blocked"
    using i that by (simp add: launch_inv_def)
  have m: "step l s RunLauncher = s" if "launcher s = Blocked" "sent s = []"
    using that buf [OF that(1)] by (simp add: step_def alive_def run_launcher_def)
  have n: "errs s = map snd (sent s)
          \<and> step l s RunLauncher =
              s\<lparr>errs := tl (errs s), launcher := Received (snd (hd (sent s)))\<rparr>"
    if "launcher s = Blocked" "sent s \<noteq> []"
    using that buf [OF that(1)]
    by (cases "sent s") (simp_all add: step_def alive_def run_launcher_def)
  have p: "step l s RunLauncher =
            s\<lparr>launcher := Terminated,
              logged := logged s @ [Log [(''terminated'', LErr (snd (hd (sent s))))]]\<rparr>"
    if "launcher s = Received v" for v
    using that h [OF that] by (simp add: step_def alive_def run_launcher_def)
  have q: "launcher (step l (step l s RunLauncher) RunLauncher) = Terminated
          \<and> logged (step l (step l s RunLauncher) RunLauncher) =
              logged s @ [Log [(''terminated'', LErr (snd (hd (sent s))))]]"
    if "alive s" "sent s \<noteq> []"
  proof (cases "launcher s")
    case Blocked
    have s1: "step l s RunLauncher =
        s\<lparr>errs := tl (errs s), launcher := Received (snd (hd (sent s)))\<rparr>"
      using n [OF Blocked that(2)] by blast
    show ?thesis
      unfolding s1 by (simp add: step_def alive_def run_launcher_def)
  next
    case (Received v)
    have s1: "step l s RunLauncher =
        s\<lparr>launcher := Terminated,
          logged := logged s @ [Log [(''terminated'', LErr (snd (hd (sent s))))]]\<rparr>"
      by (rule p [OF Received])
    show ?thesis
      unfolding s1 by (simp add: step_def alive_def)
  next
    case Terminated
    then show ?thesis using that(1) by (simp add: alive_def)
  next
    case Killed
    then show ?thesis using that(1) by (simp add: alive_def)
  qed
  have r: "step l s t = s" if "launcher s = Terminated" for t
    using that by (simp add: step_def alive_def)
  have A: "(\<forall>e. modeTask s = ListenReturned e \<longrightarrow> can_send s)"
    using a by blast
  have B: "(\<forall>x. watcher s = SignalCaught x \<longrightarrow> can_send s)"
    using b by blast
  have C: "(\<forall>e. alive s \<longrightarrow> modeTask s = ListenReturned e \<longrightarrow>
            sent (step l s RunMode) = sent s @ [(ModeTask, e)])"
    using c by blast
  have D: "(\<forall>x. alive s \<longrightarrow> watcher s = SignalCaught x \<longrightarrow>
            sent (step l s RunWatcher) = sent s @ [(SignalTask, ErrOther x)])"
    using d by blast
  have E: "length (sent s) \<le> errsCap"
    using e by blast
  have F: "(l_lambda l \<longrightarrow> ModeTask \<notin> fst ` set (sent s))"
    using f by blast
  have G: "(sent s = [] \<longrightarrow> launcher s = Blocked \<or> launcher s = Killed)"
    using g by blast
  have H: "(\<forall>v. launcher s = Received v \<longrightarrow> sent s \<noteq> [] \<and> snd (hd (sent s)) = v)"
    using h by blast
  have K: "(launcher s = Terminated \<longrightarrow>
            sent s \<noteq> [] \<and> logged s \<noteq> []
            \<and> last (logged s) = Log [(''terminated'', LErr (snd (hd (sent s))))])"
    using k by blast
  have M: "(launcher s = Blocked \<longrightarrow> sent s = [] \<longrightarrow> step l s RunLauncher = s)"
    using m by blast
  have N: "(launcher s = Blocked \<longrightarrow> sent s \<noteq> [] \<longrightarrow>
            errs s = map snd (sent s)
            \<and> step l s RunLauncher =
                s\<lparr>errs := tl (errs s), launcher := Received (snd (hd (sent s)))\<rparr>)"
    using n by blast
  have P: "(\<forall>v. launcher s = Received v \<longrightarrow>
            step l s RunLauncher =
              s\<lparr>launcher := Terminated,
                logged := logged s @ [Log [(''terminated'', LErr (snd (hd (sent s))))]]\<rparr>)"
    using p by blast
  have Q: "(alive s \<longrightarrow> sent s \<noteq> [] \<longrightarrow>
            launcher (step l (step l s RunLauncher) RunLauncher) = Terminated
            \<and> logged (step l (step l s RunLauncher) RunLauncher) =
                logged s @ [Log [(''terminated'', LErr (snd (hd (sent s))))]])"
    using q by blast
  have R: "(launcher s = Terminated \<longrightarrow> (\<forall>t. step l s t = s))"
    using r by blast
  show ?thesis
    unfolding Let_def s_def [symmetric]
    by (intro conjI A B C D E F G H K M N P Q R)
qed

text \<open>
  The listener mode. With the watcher's outcome already in the channel when
  \<^verbatim>\<open>ListenAndServe\<close> fails, the listener's send finds room, and the launcher logs the
  signal, which came first. With no signal, the launcher's turn after the listener's
  send receives the listener's failure, and the run ends with that failure logged.
\<close>

theorem C5_witness:
  "modeTask (run_launch listenerLaunch
      [RunMode, RunWatcher, Sigint, RunWatcher, ListenAndServeReturns (ErrOther ''address already in use'')])
     = ListenReturned (ErrOther ''address already in use'')
   \<and> errs (run_launch listenerLaunch
      [RunMode, RunWatcher, Sigint, RunWatcher, ListenAndServeReturns (ErrOther ''address already in use'')])
     = [ErrOther ''interrupt'']
   \<and> can_send (run_launch listenerLaunch
      [RunMode, RunWatcher, Sigint, RunWatcher, ListenAndServeReturns (ErrOther ''address already in use'')])
   \<and> run_launch listenerLaunch
      [RunMode, RunWatcher, Sigint, RunWatcher, ListenAndServeReturns (ErrOther ''address already in use''),
       RunMode, RunLauncher, RunLauncher] =
     \<lparr>errs = [ErrOther ''address already in use''],
      sent = [(SignalTask, ErrOther ''interrupt''), (ModeTask, ErrOther ''address already in use'')],
      modeTask = ModeDone, watcher = SignalDone, launcher = Terminated,
      logged = [Log [(''transport'', LStr ''http''), (''address'', LStr '':8080''),
                     (''msg'', LStr ''listening'')],
                Log [(''terminated'', LErr (ErrOther ''interrupt''))]]\<rparr>
   \<and> launcher (run_launch listenerLaunch
      [RunMode, ListenAndServeReturns (ErrOther ''address already in use''), RunMode]) = Blocked
   \<and> sent (run_launch listenerLaunch
      [RunMode, ListenAndServeReturns (ErrOther ''address already in use''), RunMode]) =
     [(ModeTask, ErrOther ''address already in use'')]
   \<and> launcher (step listenerLaunch (run_launch listenerLaunch
      [RunMode, ListenAndServeReturns (ErrOther ''address already in use''), RunMode]) RunLauncher) =
     Received (ErrOther ''address already in use'')
   \<and> run_launch listenerLaunch
      [RunMode, ListenAndServeReturns (ErrOther ''address already in use''), RunMode,
       RunLauncher, RunLauncher] =
     \<lparr>errs = [], sent = [(ModeTask, ErrOther ''address already in use'')],
      modeTask = ModeDone, watcher = SignalStart, launcher = Terminated,
      logged = [Log [(''transport'', LStr ''http''), (''address'', LStr '':8080''),
                     (''msg'', LStr ''listening'')],
                Log [(''terminated'', LErr (ErrOther ''address already in use''))]]\<rparr>"
proof -
  let ?ts = "[RunMode, RunWatcher, Sigint, RunWatcher,
              ListenAndServeReturns (ErrOther ''address already in use'')]"
  let ?us = "[RunMode, ListenAndServeReturns (ErrOther ''address already in use''), RunMode]"
  have m: "modeTask (run_launch listenerLaunch ?ts) = ListenReturned (ErrOther ''address already in use'')"
    by (simp add: launch_defs)
  have b: "errs (run_launch listenerLaunch ?ts) = [ErrOther ''interrupt'']"
    by (simp add: launch_defs)
  have c: "can_send (run_launch listenerLaunch ?ts)"
    using C5_listener_and_watcher_send_without_blocking [of listenerLaunch ?ts] m
    unfolding Let_def by blast
  have r: "run_launch listenerLaunch (?ts @ [RunMode, RunLauncher, RunLauncher]) =
     \<lparr>errs = [ErrOther ''address already in use''],
      sent = [(SignalTask, ErrOther ''interrupt''), (ModeTask, ErrOther ''address already in use'')],
      modeTask = ModeDone, watcher = SignalDone, launcher = Terminated,
      logged = [Log [(''transport'', LStr ''http''), (''address'', LStr '':8080''),
                     (''msg'', LStr ''listening'')],
                Log [(''terminated'', LErr (ErrOther ''interrupt''))]]\<rparr>"
    by (simp add: launch_defs)
  have u1: "launcher (run_launch listenerLaunch ?us) = Blocked"
    by (simp add: launch_defs)
  have u2: "sent (run_launch listenerLaunch ?us) = [(ModeTask, ErrOther ''address already in use'')]"
    by (simp add: launch_defs)
  have ne: "sent (run_launch listenerLaunch ?us) \<noteq> []"
    using u2 by simp
  have "step listenerLaunch (run_launch listenerLaunch ?us) RunLauncher =
      (run_launch listenerLaunch ?us)
        \<lparr>errs := tl (errs (run_launch listenerLaunch ?us)),
          launcher := Received (snd (hd (sent (run_launch listenerLaunch ?us))))\<rparr>"
    using C5_listener_and_watcher_send_without_blocking [of listenerLaunch ?us] u1 ne
    unfolding Let_def by blast
  then have "launcher (step listenerLaunch (run_launch listenerLaunch ?us) RunLauncher) =
      Received (snd (hd (sent (run_launch listenerLaunch ?us))))"
    by simp
  then have u3: "launcher (step listenerLaunch (run_launch listenerLaunch ?us) RunLauncher) =
      Received (ErrOther ''address already in use'')"
    unfolding u2 by simp
  have u4: "run_launch listenerLaunch (?us @ [RunLauncher, RunLauncher]) =
     \<lparr>errs = [], sent = [(ModeTask, ErrOther ''address already in use'')],
      modeTask = ModeDone, watcher = SignalStart, launcher = Terminated,
      logged = [Log [(''transport'', LStr ''http''), (''address'', LStr '':8080''),
                     (''msg'', LStr ''listening'')],
                Log [(''terminated'', LErr (ErrOther ''address already in use''))]]\<rparr>"
    by (simp add: launch_defs)
  show ?thesis using m b c r u1 u2 u3 u4 by simp
qed

text \<open>
  Claim C5 as stated fails for the serverless adapter: with \<^verbatim>\<open>-lambda\<close> no schedule
  makes the mode goroutine send, and a run to the end shows the signal as the only value
  sent.
\<close>

theorem C5_counterexample:
  "l_lambda lambdaLaunch
   \<and> (\<forall>ts. ModeTask \<notin> fst ` set (sent (run_launch lambdaLaunch ts)))
   \<and> run_launch lambdaLaunch [RunMode, RunWatcher, Sigint, RunWatcher, RunLauncher, RunLauncher] =
     \<lparr>errs = [], sent = [(SignalTask, ErrOther ''interrupt'')],
      modeTask = Serverless, watcher = SignalDone, launcher = Terminated,
      logged = [Log [(''transport'', LStr ''http''), (''context'', LStr ''lambda''),
                     (''msg'', LStr ''listening'')],
                Log [(''terminated'', LErr (ErrOther ''interrupt''))]]\<rparr>"
proof -
  have a: "l_lambda lambdaLaunch" by (simp add: lambdaLaunch_def)
  have b: "ModeTask \<notin> fst ` set (sent (run_launch lambdaLaunch ts))" for ts
    using launch_inv_run [of lambdaLaunch ts] a by (simp add: launch_inv_def)
  have c: "run_launch lambdaLaunch [RunMode, RunWatcher, Sigint, RunWatcher, RunLauncher, RunLauncher] =
     \<lparr>errs = [], sent = [(SignalTask, ErrOther ''interrupt'')],
      modeTask = Serverless, watcher = SignalDone, launcher = Terminated,
      logged = [Log [(''transport'', LStr ''http''), (''context'', LStr ''lambda''),
                     (''msg'', LStr ''listening'')],
                Log [(''terminated'', LErr (ErrOther ''interrupt''))]]\<rparr>"
    by (simp add: launch_defs)
  show ?thesis using a b c by blast
qed

end
